theory Spec2Isabelle
  imports Main "HOL-Library.Sublist"
begin

section \<open>JavaScript values used by the components\<close>

text \<open>
  A string stands as the UTF-8 encoding of its code points, so ASCII text is itself and a
  letter outside ASCII is two to four bytes. \<open>split\<close> and \<open>includes\<close> work on the bytes (a
  match of well-formed text in well-formed text starts and ends between code points);
  \<open>trim\<close> and \<open>toLowerCase\<close> work on the code points. A byte that does not start a
  sequence of a lead byte and its continuation bytes reads as U+FFFD, the way text is read
  from a file.
  A thrown value is either an instance of \<open>Error\<close>, observed through its \<open>message\<close>, or
  any other value (the two cases the upload handler's \<open>catch\<close> tells apart).
\<close>

datatype thrown = ErrorInstance string | NonError

definition TypeError :: "string \<Rightarrow> thrown" where
  \<comment> \<open>reading property \<open>prop\<close> of \<open>undefined\<close>; the message is the V8 wording\<close>
  "TypeError prop =
     ErrorInstance (''Cannot read properties of undefined (reading '' @ [CHR 0x27] @ prop @ [CHR 0x27] @ '')'')"

datatype toast = ToastError string | ToastSuccess string

fun js_split :: "char \<Rightarrow> string \<Rightarrow> string list" where
  \<comment> \<open>\<open>String.prototype.split\<close> with a one-character separator: n separators give n + 1 pieces\<close>
  "js_split sep [] = [[]]"
| "js_split sep (c # cs) =
     (if c = sep then [] # js_split sep cs
      else (case js_split sep cs of [] \<Rightarrow> [[c]] | piece # pieces \<Rightarrow> (c # piece) # pieces))"

fun digits :: "nat \<Rightarrow> string" where
  \<comment> \<open>a number interpolated into a template string, in decimal\<close>
  "digits n =
     (if n < 10 then [char_of (48 + n)] else digits (n div 10) @ [char_of (48 + n mod 10)])"

fun js_includes :: "string \<Rightarrow> string \<Rightarrow> bool" where
  \<comment> \<open>\<open>s.includes(t)\<close>: \<open>t\<close> occurs in \<open>s\<close> at some position\<close>
  "js_includes [] t = (t = [])"
| "js_includes (c # cs) t = (prefix t (c # cs) \<or> js_includes cs t)"

definition continuation :: "char \<Rightarrow> bool" where
  "continuation c \<longleftrightarrow> 0x80 \<le> (of_char c :: int) \<and> (of_char c :: int) < 0xC0"

definition trail :: "int \<Rightarrow> string \<Rightarrow> int" where
  \<comment> \<open>the code point of a lead byte's payload and its continuation bytes\<close>
  "trail lead cs = foldl (\<lambda>v c. v * 64 + ((of_char c :: int) - 0x80)) lead cs"

fun utf8_decode :: "string \<Rightarrow> int list" where
  "utf8_decode [] = []"
| "utf8_decode (b # bs) =
     (let n = (of_char b :: int) in
      if n < 0x80 then n # utf8_decode bs
      else if 0xC0 \<le> n \<and> n < 0xE0 \<and> 1 \<le> length bs \<and> list_all continuation (take 1 bs)
        then trail (n - 0xC0) (take 1 bs) # utf8_decode (drop 1 bs)
      else if 0xE0 \<le> n \<and> n < 0xF0 \<and> 2 \<le> length bs \<and> list_all continuation (take 2 bs)
        then trail (n - 0xE0) (take 2 bs) # utf8_decode (drop 2 bs)
      else if 0xF0 \<le> n \<and> n < 0xF8 \<and> 3 \<le> length bs \<and> list_all continuation (take 3 bs)
        then trail (n - 0xF0) (take 3 bs) # utf8_decode (drop 3 bs)
      else 0xFFFD # utf8_decode bs)"

definition utf8_encode1 :: "int \<Rightarrow> string" where
  "utf8_encode1 cp =
     (if cp < 0x80 then [char_of cp]
      else if cp < 0x800 then [char_of (0xC0 + cp div 64), char_of (0x80 + cp mod 64)]
      else if cp < 0x10000 then
        [char_of (0xE0 + cp div 4096), char_of (0x80 + cp div 64 mod 64), char_of (0x80 + cp mod 64)]
      else
        [char_of (0xF0 + cp div 262144), char_of (0x80 + cp div 4096 mod 64),
         char_of (0x80 + cp div 64 mod 64), char_of (0x80 + cp mod 64)])"

definition utf8_encode :: "int list \<Rightarrow> string" where
  "utf8_encode cps = concat (map utf8_encode1 cps)"

definition is_space :: "int \<Rightarrow> bool" where
  \<comment> \<open>the code points \<open>trim\<close> strips: ECMAScript's WhiteSpace (tab, VT, FF, U+FEFF and the
      space separators) and LineTerminator (LF, CR, U+2028, U+2029)\<close>
  "is_space cp \<longleftrightarrow>
     cp \<in> set [0x09, 0x0A, 0x0B, 0x0C, 0x0D, 0x20, 0xA0, 0x1680, 0x2028, 0x2029, 0x202F,
                0x205F, 0x3000, 0xFEFF] \<or>
     (0x2000 \<le> cp \<and> cp \<le> 0x200A)"

definition trim :: "string \<Rightarrow> string" where
  "trim s = utf8_encode (rev (dropWhile is_space (rev (dropWhile is_space (utf8_decode s)))))"

text \<open>
  \<open>toLowerCase\<close> follows Unicode's default case conversion: the lower-case mapping of each
  code point, U+0130 to two code points, and the capital sigma to the final or the
  non-final small sigma by what surrounds it. The tables are those of Unicode 14.0: the
  code points with a lower-case mapping, as (first, last, step, image of the first); the
  case-ignorable code points; and the cased code points that are not case-ignorable.
\<close>

definition lowercase_mappings :: "(int \<times> int \<times> int \<times> int) list" where
  "lowercase_mappings =
     [
      (0x41, 0x5A, 1, 0x61), (0xC0, 0xD6, 1, 0xE0), (0xD8, 0xDE, 1, 0xF8), (0x100, 0x12E, 2,
      0x101), (0x132, 0x136, 2, 0x133), (0x139, 0x147, 2, 0x13A), (0x14A, 0x176, 2, 0x14B),
      (0x178, 0x178, 1, 0xFF), (0x179, 0x17D, 2, 0x17A), (0x181, 0x181, 1, 0x253), (0x182, 0x184,
      2, 0x183), (0x186, 0x186, 1, 0x254), (0x187, 0x187, 1, 0x188), (0x189, 0x18A, 1, 0x256),
      (0x18B, 0x18B, 1, 0x18C), (0x18E, 0x18E, 1, 0x1DD), (0x18F, 0x18F, 1, 0x259), (0x190, 0x190,
      1, 0x25B), (0x191, 0x191, 1, 0x192), (0x193, 0x193, 1, 0x260), (0x194, 0x194, 1, 0x263),
      (0x196, 0x196, 1, 0x269), (0x197, 0x197, 1, 0x268), (0x198, 0x198, 1, 0x199), (0x19C, 0x19C,
      1, 0x26F), (0x19D, 0x19D, 1, 0x272), (0x19F, 0x19F, 1, 0x275), (0x1A0, 0x1A4, 2, 0x1A1),
      (0x1A6, 0x1A6, 1, 0x280), (0x1A7, 0x1A7, 1, 0x1A8), (0x1A9, 0x1A9, 1, 0x283), (0x1AC, 0x1AC,
      1, 0x1AD), (0x1AE, 0x1AE, 1, 0x288), (0x1AF, 0x1AF, 1, 0x1B0), (0x1B1, 0x1B2, 1, 0x28A),
      (0x1B3, 0x1B5, 2, 0x1B4), (0x1B7, 0x1B7, 1, 0x292), (0x1B8, 0x1B8, 1, 0x1B9), (0x1BC, 0x1BC,
      1, 0x1BD), (0x1C4, 0x1C4, 1, 0x1C6), (0x1C5, 0x1C5, 1, 0x1C6), (0x1C7, 0x1C7, 1, 0x1C9),
      (0x1C8, 0x1C8, 1, 0x1C9), (0x1CA, 0x1CA, 1, 0x1CC), (0x1CB, 0x1DB, 2, 0x1CC), (0x1DE, 0x1EE,
      2, 0x1DF), (0x1F1, 0x1F1, 1, 0x1F3), (0x1F2, 0x1F4, 2, 0x1F3), (0x1F6, 0x1F6, 1, 0x195),
      (0x1F7, 0x1F7, 1, 0x1BF), (0x1F8, 0x21E, 2, 0x1F9), (0x220, 0x220, 1, 0x19E), (0x222, 0x232,
      2, 0x223), (0x23A, 0x23A, 1, 0x2C65), (0x23B, 0x23B, 1, 0x23C), (0x23D, 0x23D, 1, 0x19A),
      (0x23E, 0x23E, 1, 0x2C66), (0x241, 0x241, 1, 0x242), (0x243, 0x243, 1, 0x180), (0x244,
      0x244, 1, 0x289), (0x245, 0x245, 1, 0x28C), (0x246, 0x24E, 2, 0x247), (0x370, 0x372, 2,
      0x371), (0x376, 0x376, 1, 0x377), (0x37F, 0x37F, 1, 0x3F3), (0x386, 0x386, 1, 0x3AC),
      (0x388, 0x38A, 1, 0x3AD), (0x38C, 0x38C, 1, 0x3CC), (0x38E, 0x38F, 1, 0x3CD), (0x391, 0x3A1,
      1, 0x3B1), (0x3A3, 0x3AB, 1, 0x3C3), (0x3CF, 0x3CF, 1, 0x3D7), (0x3D8, 0x3EE, 2, 0x3D9),
      (0x3F4, 0x3F4, 1, 0x3B8), (0x3F7, 0x3F7, 1, 0x3F8), (0x3F9, 0x3F9, 1, 0x3F2), (0x3FA, 0x3FA,
      1, 0x3FB), (0x3FD, 0x3FF, 1, 0x37B), (0x400, 0x40F, 1, 0x450), (0x410, 0x42F, 1, 0x430),
      (0x460, 0x480, 2, 0x461), (0x48A, 0x4BE, 2, 0x48B), (0x4C0, 0x4C0, 1, 0x4CF), (0x4C1, 0x4CD,
      2, 0x4C2), (0x4D0, 0x52E, 2, 0x4D1), (0x531, 0x556, 1, 0x561), (0x10A0, 0x10C5, 1, 0x2D00),
      (0x10C7, 0x10C7, 1, 0x2D27), (0x10CD, 0x10CD, 1, 0x2D2D), (0x13A0, 0x13EF, 1, 0xAB70),
      (0x13F0, 0x13F5, 1, 0x13F8), (0x1C90, 0x1CBA, 1, 0x10D0), (0x1CBD, 0x1CBF, 1, 0x10FD),
      (0x1E00, 0x1E94, 2, 0x1E01), (0x1E9E, 0x1E9E, 1, 0xDF), (0x1EA0, 0x1EFE, 2, 0x1EA1),
      (0x1F08, 0x1F0F, 1, 0x1F00), (0x1F18, 0x1F1D, 1, 0x1F10), (0x1F28, 0x1F2F, 1, 0x1F20),
      (0x1F38, 0x1F3F, 1, 0x1F30), (0x1F48, 0x1F4D, 1, 0x1F40), (0x1F59, 0x1F5F, 2, 0x1F51),
      (0x1F68, 0x1F6F, 1, 0x1F60), (0x1F88, 0x1F8F, 1, 0x1F80), (0x1F98, 0x1F9F, 1, 0x1F90),
      (0x1FA8, 0x1FAF, 1, 0x1FA0), (0x1FB8, 0x1FB9, 1, 0x1FB0), (0x1FBA, 0x1FBB, 1, 0x1F70),
      (0x1FBC, 0x1FBC, 1, 0x1FB3), (0x1FC8, 0x1FCB, 1, 0x1F72), (0x1FCC, 0x1FCC, 1, 0x1FC3),
      (0x1FD8, 0x1FD9, 1, 0x1FD0), (0x1FDA, 0x1FDB, 1, 0x1F76), (0x1FE8, 0x1FE9, 1, 0x1FE0),
      (0x1FEA, 0x1FEB, 1, 0x1F7A), (0x1FEC, 0x1FEC, 1, 0x1FE5), (0x1FF8, 0x1FF9, 1, 0x1F78),
      (0x1FFA, 0x1FFB, 1, 0x1F7C), (0x1FFC, 0x1FFC, 1, 0x1FF3), (0x2126, 0x2126, 1, 0x3C9),
      (0x212A, 0x212A, 1, 0x6B), (0x212B, 0x212B, 1, 0xE5), (0x2132, 0x2132, 1, 0x214E), (0x2160,
      0x216F, 1, 0x2170), (0x2183, 0x2183, 1, 0x2184), (0x24B6, 0x24CF, 1, 0x24D0), (0x2C00,
      0x2C2F, 1, 0x2C30), (0x2C60, 0x2C60, 1, 0x2C61), (0x2C62, 0x2C62, 1, 0x26B), (0x2C63,
      0x2C63, 1, 0x1D7D), (0x2C64, 0x2C64, 1, 0x27D), (0x2C67, 0x2C6B, 2, 0x2C68), (0x2C6D,
      0x2C6D, 1, 0x251), (0x2C6E, 0x2C6E, 1, 0x271), (0x2C6F, 0x2C6F, 1, 0x250), (0x2C70, 0x2C70,
      1, 0x252), (0x2C72, 0x2C72, 1, 0x2C73), (0x2C75, 0x2C75, 1, 0x2C76), (0x2C7E, 0x2C7F, 1,
      0x23F), (0x2C80, 0x2CE2, 2, 0x2C81), (0x2CEB, 0x2CED, 2, 0x2CEC), (0x2CF2, 0x2CF2, 1,
      0x2CF3), (0xA640, 0xA66C, 2, 0xA641), (0xA680, 0xA69A, 2, 0xA681), (0xA722, 0xA72E, 2,
      0xA723), (0xA732, 0xA76E, 2, 0xA733), (0xA779, 0xA77B, 2, 0xA77A), (0xA77D, 0xA77D, 1,
      0x1D79), (0xA77E, 0xA786, 2, 0xA77F), (0xA78B, 0xA78B, 1, 0xA78C), (0xA78D, 0xA78D, 1,
      0x265), (0xA790, 0xA792, 2, 0xA791), (0xA796, 0xA7A8, 2, 0xA797), (0xA7AA, 0xA7AA, 1,
      0x266), (0xA7AB, 0xA7AB, 1, 0x25C), (0xA7AC, 0xA7AC, 1, 0x261), (0xA7AD, 0xA7AD, 1, 0x26C),
      (0xA7AE, 0xA7AE, 1, 0x26A), (0xA7B0, 0xA7B0, 1, 0x29E), (0xA7B1, 0xA7B1, 1, 0x287), (0xA7B2,
      0xA7B2, 1, 0x29D), (0xA7B3, 0xA7B3, 1, 0xAB53), (0xA7B4, 0xA7C2, 2, 0xA7B5), (0xA7C4,
      0xA7C4, 1, 0xA794), (0xA7C5, 0xA7C5, 1, 0x282), (0xA7C6, 0xA7C6, 1, 0x1D8E), (0xA7C7,
      0xA7C9, 2, 0xA7C8), (0xA7D0, 0xA7D0, 1, 0xA7D1), (0xA7D6, 0xA7D8, 2, 0xA7D7), (0xA7F5,
      0xA7F5, 1, 0xA7F6), (0xFF21, 0xFF3A, 1, 0xFF41), (0x10400, 0x10427, 1, 0x10428), (0x104B0,
      0x104D3, 1, 0x104D8), (0x10570, 0x1057A, 1, 0x10597), (0x1057C, 0x1058A, 1, 0x105A3),
      (0x1058C, 0x10592, 1, 0x105B3), (0x10594, 0x10595, 1, 0x105BB), (0x10C80, 0x10CB2, 1,
      0x10CC0), (0x118A0, 0x118BF, 1, 0x118C0), (0x16E40, 0x16E5F, 1, 0x16E60), (0x1E900, 0x1E921,
      1, 0x1E922)]"

definition case_ignorable_ranges :: "(int \<times> int) list" where
  "case_ignorable_ranges =
     [
      (0x27, 0x27), (0x2E, 0x2E), (0x3A, 0x3A), (0x5E, 0x5E), (0x60, 0x60), (0xA8, 0xA8), (0xAD,
      0xAD), (0xAF, 0xAF), (0xB4, 0xB4), (0xB7, 0xB8), (0x2B0, 0x36F), (0x374, 0x375), (0x37A,
      0x37A), (0x384, 0x385), (0x387, 0x387), (0x483, 0x489), (0x559, 0x559), (0x55F, 0x55F),
      (0x591, 0x5BD), (0x5BF, 0x5BF), (0x5C1, 0x5C2), (0x5C4, 0x5C5), (0x5C7, 0x5C7), (0x5F4,
      0x5F4), (0x600, 0x605), (0x610, 0x61A), (0x61C, 0x61C), (0x640, 0x640), (0x64B, 0x65F),
      (0x670, 0x670), (0x6D6, 0x6DD), (0x6DF, 0x6E8), (0x6EA, 0x6ED), (0x70F, 0x70F), (0x711,
      0x711), (0x730, 0x74A), (0x7A6, 0x7B0), (0x7EB, 0x7F5), (0x7FA, 0x7FA), (0x7FD, 0x7FD),
      (0x816, 0x82D), (0x859, 0x85B), (0x888, 0x888), (0x890, 0x891), (0x898, 0x89F), (0x8C9,
      0x902), (0x93A, 0x93A), (0x93C, 0x93C), (0x941, 0x948), (0x94D, 0x94D), (0x951, 0x957),
      (0x962, 0x963), (0x971, 0x971), (0x981, 0x981), (0x9BC, 0x9BC), (0x9C1, 0x9C4), (0x9CD,
      0x9CD), (0x9E2, 0x9E3), (0x9FE, 0x9FE), (0xA01, 0xA02), (0xA3C, 0xA3C), (0xA41, 0xA42),
      (0xA47, 0xA48), (0xA4B, 0xA4D), (0xA51, 0xA51), (0xA70, 0xA71), (0xA75, 0xA75), (0xA81,
      0xA82), (0xABC, 0xABC), (0xAC1, 0xAC5), (0xAC7, 0xAC8), (0xACD, 0xACD), (0xAE2, 0xAE3),
      (0xAFA, 0xAFF), (0xB01, 0xB01), (0xB3C, 0xB3C), (0xB3F, 0xB3F), (0xB41, 0xB44), (0xB4D,
      0xB4D), (0xB55, 0xB56), (0xB62, 0xB63), (0xB82, 0xB82), (0xBC0, 0xBC0), (0xBCD, 0xBCD),
      (0xC00, 0xC00), (0xC04, 0xC04), (0xC3C, 0xC3C), (0xC3E, 0xC40), (0xC46, 0xC48), (0xC4A,
      0xC4D), (0xC55, 0xC56), (0xC62, 0xC63), (0xC81, 0xC81), (0xCBC, 0xCBC), (0xCBF, 0xCBF),
      (0xCC6, 0xCC6), (0xCCC, 0xCCD), (0xCE2, 0xCE3), (0xD00, 0xD01), (0xD3B, 0xD3C), (0xD41,
      0xD44), (0xD4D, 0xD4D), (0xD62, 0xD63), (0xD81, 0xD81), (0xDCA, 0xDCA), (0xDD2, 0xDD4),
      (0xDD6, 0xDD6), (0xE31, 0xE31), (0xE34, 0xE3A), (0xE46, 0xE4E), (0xEB1, 0xEB1), (0xEB4,
      0xEBC), (0xEC6, 0xEC6), (0xEC8, 0xECD), (0xF18, 0xF19), (0xF35, 0xF35), (0xF37, 0xF37),
      (0xF39, 0xF39), (0xF71, 0xF7E), (0xF80, 0xF84), (0xF86, 0xF87), (0xF8D, 0xF97), (0xF99,
      0xFBC), (0xFC6, 0xFC6), (0x102D, 0x1030), (0x1032, 0x1037), (0x1039, 0x103A), (0x103D,
      0x103E), (0x1058, 0x1059), (0x105E, 0x1060), (0x1071, 0x1074), (0x1082, 0x1082), (0x1085,
      0x1086), (0x108D, 0x108D), (0x109D, 0x109D), (0x10FC, 0x10FC), (0x135D, 0x135F), (0x1712,
      0x1714), (0x1732, 0x1733), (0x1752, 0x1753), (0x1772, 0x1773), (0x17B4, 0x17B5), (0x17B7,
      0x17BD), (0x17C6, 0x17C6), (0x17C9, 0x17D3), (0x17D7, 0x17D7), (0x17DD, 0x17DD), (0x180B,
      0x180F), (0x1843, 0x1843), (0x1885, 0x1886), (0x18A9, 0x18A9), (0x1920, 0x1922), (0x1927,
      0x1928), (0x1932, 0x1932), (0x1939, 0x193B), (0x1A17, 0x1A18), (0x1A1B, 0x1A1B), (0x1A56,
      0x1A56), (0x1A58, 0x1A5E), (0x1A60, 0x1A60), (0x1A62, 0x1A62), (0x1A65, 0x1A6C), (0x1A73,
      0x1A7C), (0x1A7F, 0x1A7F), (0x1AA7, 0x1AA7), (0x1AB0, 0x1ACE), (0x1B00, 0x1B03), (0x1B34,
      0x1B34), (0x1B36, 0x1B3A), (0x1B3C, 0x1B3C), (0x1B42, 0x1B42), (0x1B6B, 0x1B73), (0x1B80,
      0x1B81), (0x1BA2, 0x1BA5), (0x1BA8, 0x1BA9), (0x1BAB, 0x1BAD), (0x1BE6, 0x1BE6), (0x1BE8,
      0x1BE9), (0x1BED, 0x1BED), (0x1BEF, 0x1BF1), (0x1C2C, 0x1C33), (0x1C36, 0x1C37), (0x1C78,
      0x1C7D), (0x1CD0, 0x1CD2), (0x1CD4, 0x1CE0), (0x1CE2, 0x1CE8), (0x1CED, 0x1CED), (0x1CF4,
      0x1CF4), (0x1CF8, 0x1CF9), (0x1D2C, 0x1D6A), (0x1D78, 0x1D78), (0x1D9B, 0x1DFF), (0x1FBD,
      0x1FBD), (0x1FBF, 0x1FC1), (0x1FCD, 0x1FCF), (0x1FDD, 0x1FDF), (0x1FED, 0x1FEF), (0x1FFD,
      0x1FFE), (0x200B, 0x200F), (0x2018, 0x2019), (0x2024, 0x2024), (0x2027, 0x2027), (0x202A,
      0x202E), (0x2060, 0x2064), (0x2066, 0x206F), (0x2071, 0x2071), (0x207F, 0x207F), (0x2090,
      0x209C), (0x20D0, 0x20F0), (0x2C7C, 0x2C7D), (0x2CEF, 0x2CF1), (0x2D6F, 0x2D6F), (0x2D7F,
      0x2D7F), (0x2DE0, 0x2DFF), (0x2E2F, 0x2E2F), (0x3005, 0x3005), (0x302A, 0x302D), (0x3031,
      0x3035), (0x303B, 0x303B), (0x3099, 0x309E), (0x30FC, 0x30FE), (0xA015, 0xA015), (0xA4F8,
      0xA4FD), (0xA60C, 0xA60C), (0xA66F, 0xA672), (0xA674, 0xA67D), (0xA67F, 0xA67F), (0xA69C,
      0xA69F), (0xA6F0, 0xA6F1), (0xA700, 0xA721), (0xA770, 0xA770), (0xA788, 0xA78A), (0xA7F2,
      0xA7F4), (0xA7F8, 0xA7F9), (0xA802, 0xA802), (0xA806, 0xA806), (0xA80B, 0xA80B), (0xA825,
      0xA826), (0xA82C, 0xA82C), (0xA8C4, 0xA8C5), (0xA8E0, 0xA8F1), (0xA8FF, 0xA8FF), (0xA926,
      0xA92D), (0xA947, 0xA951), (0xA980, 0xA982), (0xA9B3, 0xA9B3), (0xA9B6, 0xA9B9), (0xA9BC,
      0xA9BD), (0xA9CF, 0xA9CF), (0xA9E5, 0xA9E6), (0xAA29, 0xAA2E), (0xAA31, 0xAA32), (0xAA35,
      0xAA36), (0xAA43, 0xAA43), (0xAA4C, 0xAA4C), (0xAA70, 0xAA70), (0xAA7C, 0xAA7C), (0xAAB0,
      0xAAB0), (0xAAB2, 0xAAB4), (0xAAB7, 0xAAB8), (0xAABE, 0xAABF), (0xAAC1, 0xAAC1), (0xAADD,
      0xAADD), (0xAAEC, 0xAAED), (0xAAF3, 0xAAF4), (0xAAF6, 0xAAF6), (0xAB5B, 0xAB5F), (0xAB69,
      0xAB6B), (0xABE5, 0xABE5), (0xABE8, 0xABE8), (0xABED, 0xABED), (0xFB1E, 0xFB1E), (0xFBB2,
      0xFBC2), (0xFE00, 0xFE0F), (0xFE13, 0xFE13), (0xFE20, 0xFE2F), (0xFE52, 0xFE52), (0xFE55,
      0xFE55), (0xFEFF, 0xFEFF), (0xFF07, 0xFF07), (0xFF0E, 0xFF0E), (0xFF1A, 0xFF1A), (0xFF3E,
      0xFF3E), (0xFF40, 0xFF40), (0xFF70, 0xFF70), (0xFF9E, 0xFF9F), (0xFFE3, 0xFFE3), (0xFFF9,
      0xFFFB), (0x101FD, 0x101FD), (0x102E0, 0x102E0), (0x10376, 0x1037A), (0x10780, 0x10785),
      (0x10787, 0x107B0), (0x107B2, 0x107BA), (0x10A01, 0x10A03), (0x10A05, 0x10A06), (0x10A0C,
      0x10A0F), (0x10A38, 0x10A3A), (0x10A3F, 0x10A3F), (0x10AE5, 0x10AE6), (0x10D24, 0x10D27),
      (0x10EAB, 0x10EAC), (0x10F46, 0x10F50), (0x10F82, 0x10F85), (0x11001, 0x11001), (0x11038,
      0x11046), (0x11070, 0x11070), (0x11073, 0x11074), (0x1107F, 0x11081), (0x110B3, 0x110B6),
      (0x110B9, 0x110BA), (0x110BD, 0x110BD), (0x110C2, 0x110C2), (0x110CD, 0x110CD), (0x11100,
      0x11102), (0x11127, 0x1112B), (0x1112D, 0x11134), (0x11173, 0x11173), (0x11180, 0x11181),
      (0x111B6, 0x111BE), (0x111C9, 0x111CC), (0x111CF, 0x111CF), (0x1122F, 0x11231), (0x11234,
      0x11234), (0x11236, 0x11237), (0x1123E, 0x1123E), (0x112DF, 0x112DF), (0x112E3, 0x112EA),
      (0x11300, 0x11301), (0x1133B, 0x1133C), (0x11340, 0x11340), (0x11366, 0x1136C), (0x11370,
      0x11374), (0x11438, 0x1143F), (0x11442, 0x11444), (0x11446, 0x11446), (0x1145E, 0x1145E),
      (0x114B3, 0x114B8), (0x114BA, 0x114BA), (0x114BF, 0x114C0), (0x114C2, 0x114C3), (0x115B2,
      0x115B5), (0x115BC, 0x115BD), (0x115BF, 0x115C0), (0x115DC, 0x115DD), (0x11633, 0x1163A),
      (0x1163D, 0x1163D), (0x1163F, 0x11640), (0x116AB, 0x116AB), (0x116AD, 0x116AD), (0x116B0,
      0x116B5), (0x116B7, 0x116B7), (0x1171D, 0x1171F), (0x11722, 0x11725), (0x11727, 0x1172B),
      (0x1182F, 0x11837), (0x11839, 0x1183A), (0x1193B, 0x1193C), (0x1193E, 0x1193E), (0x11943,
      0x11943), (0x119D4, 0x119D7), (0x119DA, 0x119DB), (0x119E0, 0x119E0), (0x11A01, 0x11A0A),
      (0x11A33, 0x11A38), (0x11A3B, 0x11A3E), (0x11A47, 0x11A47), (0x11A51, 0x11A56), (0x11A59,
      0x11A5B), (0x11A8A, 0x11A96), (0x11A98, 0x11A99), (0x11C30, 0x11C36), (0x11C38, 0x11C3D),
      (0x11C3F, 0x11C3F), (0x11C92, 0x11CA7), (0x11CAA, 0x11CB0), (0x11CB2, 0x11CB3), (0x11CB5,
      0x11CB6), (0x11D31, 0x11D36), (0x11D3A, 0x11D3A), (0x11D3C, 0x11D3D), (0x11D3F, 0x11D45),
      (0x11D47, 0x11D47), (0x11D90, 0x11D91), (0x11D95, 0x11D95), (0x11D97, 0x11D97), (0x11EF3,
      0x11EF4), (0x13430, 0x13438), (0x16AF0, 0x16AF4), (0x16B30, 0x16B36), (0x16B40, 0x16B43),
      (0x16F4F, 0x16F4F), (0x16F8F, 0x16F9F), (0x16FE0, 0x16FE1), (0x16FE3, 0x16FE4), (0x1AFF0,
      0x1AFF3), (0x1AFF5, 0x1AFFB), (0x1AFFD, 0x1AFFE), (0x1BC9D, 0x1BC9E), (0x1BCA0, 0x1BCA3),
      (0x1CF00, 0x1CF2D), (0x1CF30, 0x1CF46), (0x1D167, 0x1D169), (0x1D173, 0x1D182), (0x1D185,
      0x1D18B), (0x1D1AA, 0x1D1AD), (0x1D242, 0x1D244), (0x1DA00, 0x1DA36), (0x1DA3B, 0x1DA6C),
      (0x1DA75, 0x1DA75), (0x1DA84, 0x1DA84), (0x1DA9B, 0x1DA9F), (0x1DAA1, 0x1DAAF), (0x1E000,
      0x1E006), (0x1E008, 0x1E018), (0x1E01B, 0x1E021), (0x1E023, 0x1E024), (0x1E026, 0x1E02A),
      (0x1E130, 0x1E13D), (0x1E2AE, 0x1E2AE), (0x1E2EC, 0x1E2EF), (0x1E8D0, 0x1E8D6), (0x1E944,
      0x1E94B), (0x1F3FB, 0x1F3FF), (0xE0001, 0xE0001), (0xE0020, 0xE007F), (0xE0100, 0xE01EF)]"

definition cased_ranges :: "(int \<times> int) list" where
  "cased_ranges =
     [
      (0x41, 0x5A), (0x61, 0x7A), (0xAA, 0xAA), (0xB5, 0xB5), (0xBA, 0xBA), (0xC0, 0xD6), (0xD8,
      0xF6), (0xF8, 0x1BA), (0x1BC, 0x1BF), (0x1C4, 0x293), (0x295, 0x2AF), (0x370, 0x373),
      (0x376, 0x377), (0x37B, 0x37D), (0x37F, 0x37F), (0x386, 0x386), (0x388, 0x38A), (0x38C,
      0x38C), (0x38E, 0x3A1), (0x3A3, 0x3F5), (0x3F7, 0x481), (0x48A, 0x52F), (0x531, 0x556),
      (0x560, 0x588), (0x10A0, 0x10C5), (0x10C7, 0x10C7), (0x10CD, 0x10CD), (0x10D0, 0x10FA),
      (0x10FD, 0x10FF), (0x13A0, 0x13F5), (0x13F8, 0x13FD), (0x1C80, 0x1C88), (0x1C90, 0x1CBA),
      (0x1CBD, 0x1CBF), (0x1D00, 0x1D2B), (0x1D6B, 0x1D77), (0x1D79, 0x1D9A), (0x1E00, 0x1F15),
      (0x1F18, 0x1F1D), (0x1F20, 0x1F45), (0x1F48, 0x1F4D), (0x1F50, 0x1F57), (0x1F59, 0x1F59),
      (0x1F5B, 0x1F5B), (0x1F5D, 0x1F5D), (0x1F5F, 0x1F7D), (0x1F80, 0x1FB4), (0x1FB6, 0x1FBC),
      (0x1FBE, 0x1FBE), (0x1FC2, 0x1FC4), (0x1FC6, 0x1FCC), (0x1FD0, 0x1FD3), (0x1FD6, 0x1FDB),
      (0x1FE0, 0x1FEC), (0x1FF2, 0x1FF4), (0x1FF6, 0x1FFC), (0x2102, 0x2102), (0x2107, 0x2107),
      (0x210A, 0x2113), (0x2115, 0x2115), (0x2119, 0x211D), (0x2124, 0x2124), (0x2126, 0x2126),
      (0x2128, 0x2128), (0x212A, 0x212D), (0x212F, 0x2134), (0x2139, 0x2139), (0x213C, 0x213F),
      (0x2145, 0x2149), (0x214E, 0x214E), (0x2160, 0x217F), (0x2183, 0x2184), (0x24B6, 0x24E9),
      (0x2C00, 0x2C7B), (0x2C7E, 0x2CE4), (0x2CEB, 0x2CEE), (0x2CF2, 0x2CF3), (0x2D00, 0x2D25),
      (0x2D27, 0x2D27), (0x2D2D, 0x2D2D), (0xA640, 0xA66D), (0xA680, 0xA69B), (0xA722, 0xA76F),
      (0xA771, 0xA787), (0xA78B, 0xA78E), (0xA790, 0xA7CA), (0xA7D0, 0xA7D1), (0xA7D3, 0xA7D3),
      (0xA7D5, 0xA7D9), (0xA7F5, 0xA7F6), (0xA7FA, 0xA7FA), (0xAB30, 0xAB5A), (0xAB60, 0xAB68),
      (0xAB70, 0xABBF), (0xFB00, 0xFB06), (0xFB13, 0xFB17), (0xFF21, 0xFF3A), (0xFF41, 0xFF5A),
      (0x10400, 0x1044F), (0x104B0, 0x104D3), (0x104D8, 0x104FB), (0x10570, 0x1057A), (0x1057C,
      0x1058A), (0x1058C, 0x10592), (0x10594, 0x10595), (0x10597, 0x105A1), (0x105A3, 0x105B1),
      (0x105B3, 0x105B9), (0x105BB, 0x105BC), (0x10C80, 0x10CB2), (0x10CC0, 0x10CF2), (0x118A0,
      0x118DF), (0x16E40, 0x16E7F), (0x1D400, 0x1D454), (0x1D456, 0x1D49C), (0x1D49E, 0x1D49F),
      (0x1D4A2, 0x1D4A2), (0x1D4A5, 0x1D4A6), (0x1D4A9, 0x1D4AC), (0x1D4AE, 0x1D4B9), (0x1D4BB,
      0x1D4BB), (0x1D4BD, 0x1D4C3), (0x1D4C5, 0x1D505), (0x1D507, 0x1D50A), (0x1D50D, 0x1D514),
      (0x1D516, 0x1D51C), (0x1D51E, 0x1D539), (0x1D53B, 0x1D53E), (0x1D540, 0x1D544), (0x1D546,
      0x1D546), (0x1D54A, 0x1D550), (0x1D552, 0x1D6A5), (0x1D6A8, 0x1D6C0), (0x1D6C2, 0x1D6DA),
      (0x1D6DC, 0x1D6FA), (0x1D6FC, 0x1D714), (0x1D716, 0x1D734), (0x1D736, 0x1D74E), (0x1D750,
      0x1D76E), (0x1D770, 0x1D788), (0x1D78A, 0x1D7A8), (0x1D7AA, 0x1D7C2), (0x1D7C4, 0x1D7CB),
      (0x1DF00, 0x1DF09), (0x1DF0B, 0x1DF1E), (0x1E900, 0x1E943), (0x1F130, 0x1F149), (0x1F150,
      0x1F169), (0x1F170, 0x1F189)]"

definition in_ranges :: "(int \<times> int) list \<Rightarrow> int \<Rightarrow> bool" where
  "in_ranges ranges cp = list_ex (\<lambda>(lo, hi). lo \<le> cp \<and> cp \<le> hi) ranges"

definition lower_cp :: "int \<Rightarrow> int" where
  "lower_cp cp =
     (if cp < 0x80 then (if 0x41 \<le> cp \<and> cp \<le> 0x5A then cp + 0x20 else cp)
      else
        (case find (\<lambda>(lo, hi, step, img).
                      lo \<le> cp \<and> cp \<le> hi \<and> (cp - lo) mod step = 0) lowercase_mappings of
           None \<Rightarrow> cp
         | Some (lo, hi, step, img) \<Rightarrow> img + (cp - lo)))"

definition final_sigma :: "int list \<Rightarrow> int list \<Rightarrow> bool" where
  \<comment> \<open>\<open>prev\<close> holds the code points before the sigma, the nearest first\<close>
  "final_sigma prev after \<longleftrightarrow>
     (case dropWhile (in_ranges case_ignorable_ranges) prev of
        [] \<Rightarrow> False
      | cp # _ \<Rightarrow> in_ranges cased_ranges cp) \<and>
     (case dropWhile (in_ranges case_ignorable_ranges) after of
        [] \<Rightarrow> True
      | cp # _ \<Rightarrow> \<not> in_ranges cased_ranges cp)"

fun lower_cps :: "int list \<Rightarrow> int list \<Rightarrow> int list" where
  "lower_cps prev [] = []"
| "lower_cps prev (cp # after) =
     (if cp = 0x3A3 then [if final_sigma prev after then 0x3C2 else 0x3C3]
      else if cp = 0x130 then [0x69, 0x307]
      else [lower_cp cp]) @ lower_cps (cp # prev) after"

definition toLowerCase :: "string \<Rightarrow> string" where
  "toLowerCase s = utf8_encode (lower_cps [] (utf8_decode s))"

definition slice :: "'a list \<Rightarrow> nat \<Rightarrow> nat \<Rightarrow> 'a list" where
  \<comment> \<open>\<open>Array.prototype.slice(start, end)\<close> for non-negative indices: both ends are clamped\<close>
  "slice xs start stop = take (stop - start) (drop start xs)"

text \<open>
  A JavaScript \<open>Set\<close> of strings keeps its members in insertion order and holds each once.
\<close>

type_synonym string_set = "string list"

definition set_add :: "string_set \<Rightarrow> string \<Rightarrow> string_set" where
  "set_add s x = (if x \<in> set s then s else s @ [x])"

definition set_delete :: "string_set \<Rightarrow> string \<Rightarrow> string_set" where
  "set_delete s x = filter (\<lambda>y. y \<noteq> x) s"

definition new_Set :: "string list \<Rightarrow> string_set" where
  \<comment> \<open>\<open>new Set(iterable)\<close>: the members are added one by one\<close>
  "new_Set xs = foldl set_add [] xs"

section \<open>TripUploader: the upload handler\<close>

type_synonym tripData = "string \<rightharpoonup> string"

fun fill_tripData :: "string list \<Rightarrow> string list \<Rightarrow> nat \<Rightarrow> tripData \<Rightarrow> thrown + tripData" where
  \<comment> \<open>\<open>headers.forEach((header, index) => { tripData[header] = row[index].trim(); })\<close>\<close>
  "fill_tripData [] row index tripData = Inr tripData"
| "fill_tripData (header # headers) row index tripData =
     (if index < length row
      then fill_tripData headers row (Suc index) (tripData(header \<mapsto> trim (row ! index)))
      else Inl (TypeError ''trim''))"

fun map_rows ::
  "(tripData \<Rightarrow> thrown + 'trip) \<Rightarrow> string list \<Rightarrow> string list list
     \<Rightarrow> string list list \<times> (thrown + 'trip list)" where
  \<comment> \<open>the \<open>.map\<close> callback over the rows that passed the filter; a throw ends the traversal.
      The first component lists the rows for which the parser was called, in call order.\<close>
  "map_rows parse headers [] = ([], Inr [])"
| "map_rows parse headers (row # rows) =
     (case fill_tripData headers row 0 Map.empty of
        Inl e \<Rightarrow> ([], Inl e)
      | Inr tripData \<Rightarrow>
          (case parse tripData of
             Inl e \<Rightarrow> ([row], Inl e)
           | Inr trip \<Rightarrow>
               (case map_rows parse headers rows of
                  (calls, Inl e) \<Rightarrow> (row # calls, Inl e)
                | (calls, Inr trips) \<Rightarrow> (row # calls, Inr (trip # trips)))))"

definition parse_row :: "(tripData \<Rightarrow> thrown + 'trip) \<Rightarrow> string list \<Rightarrow> string list \<Rightarrow> thrown + 'trip" where
  \<comment> \<open>the \<open>.map\<close> callback on one row: build \<open>tripData\<close>, then parse it\<close>
  "parse_row parse headers row =
     (case fill_tripData headers row 0 Map.empty of
        Inl e \<Rightarrow> Inl e
      | Inr tripData \<Rightarrow> parse tripData)"

definition csv_rows :: "string \<Rightarrow> string list list" where
  \<comment> \<open>\<open>text.split('\\n').map(row => row.split(','))\<close>\<close>
  "csv_rows text = map (js_split CHR '','') (js_split CHR 0x0A text)"

record 'trip drop_result =
  parsed :: "string list list"  \<comment> \<open>the rows handed to the parser\<close>
  sent :: "'trip list option"  \<comment> \<open>the argument of the backend insert, when it was called\<close>
  notice :: "toast option"  \<comment> \<open>the toast shown\<close>

definition no_valid_trips :: string where
  \<comment> \<open>the message of the handler's own error; the accented letter is two UTF-8 bytes\<close>
  "no_valid_trips =
     ''No se encontraron viajes v'' @ [CHR 0xC3, CHR 0xA1] @ ''lidos en el archivo CSV''"

definition catch_message :: "thrown \<Rightarrow> string" where
  \<comment> \<open>\<open>error instanceof Error ? error.message : 'Error al cargar los viajes'\<close>\<close>
  "catch_message e = (case e of ErrorInstance m \<Rightarrow> m | NonError \<Rightarrow> ''Error al cargar los viajes'')"

definition onDrop ::
  "(tripData \<Rightarrow> thrown + 'trip) \<Rightarrow> ('trip list \<Rightarrow> thrown option) \<Rightarrow> bool \<Rightarrow> string list
     \<Rightarrow> 'trip drop_result" where
  \<comment> \<open>\<open>parse\<close> stands for \<open>parseTripFromCSV\<close> (utils/tripParser); it and the backend's answer to the
      insert are parameters; a file is given by its text. The insert's answer \<open>Some e\<close> stands for an
      \<open>error\<close> field or a rejected call alike.\<close>
  "onDrop parse insert_trips isAuthenticated acceptedFiles =
     (if \<not> isAuthenticated then
        \<lparr>parsed = [], sent = None,
         notice = Some (ToastError ''Por favor, espera mientras autenticamos...'')\<rparr>
      else
        (case acceptedFiles of
           [] \<Rightarrow> \<lparr>parsed = [], sent = None, notice = None\<rparr>
         | text # _ \<Rightarrow>
            (case csv_rows text of
               [] \<Rightarrow> \<lparr>parsed = [], sent = None,
                       notice = Some (ToastError (catch_message (TypeError ''map'')))\<rparr>
             | row0 # data \<Rightarrow>
                (let headers = map trim row0 in
                 (case map_rows parse headers
                         (filter (\<lambda>row. length row = length headers) data) of
                    (calls, Inl e) \<Rightarrow>
                      \<lparr>parsed = calls, sent = None, notice = Some (ToastError (catch_message e))\<rparr>
                  | (calls, Inr trips) \<Rightarrow>
                      (if length trips = 0 then
                         \<lparr>parsed = calls, sent = None,
                          notice = Some (ToastError (catch_message (ErrorInstance no_valid_trips)))\<rparr>
                       else
                         (case insert_trips trips of
                            Some uploadError \<Rightarrow>
                              \<lparr>parsed = calls, sent = Some trips,
                               notice = Some (ToastError (catch_message uploadError))\<rparr>
                          | None \<Rightarrow>
                              \<lparr>parsed = calls, sent = Some trips,
                               notice = Some (ToastSuccess
                                 (''Se cargaron '' @ digits (length trips) @ '' viajes exitosamente''))\<rparr>)))))))"

text \<open>
  Modelled from the spec: \<open>parseTripFromCSV\<close> of utils/tripParser, which is not among the
  sources, and the fields of the record it returns. It projects the eight required columns
  into the trip's fields and fails when one of them is missing or empty after trimming.
  The \<open>ValidationError\<close> it raises is a parameter (its class is not among the sources
  either), applied to the first such column.
\<close>

record trip_fields =
  system_trip_id :: string
  delivery_date :: string
  driver_name :: string
  destination :: string
  project :: string
  plate_number :: string
  property_type :: string
  work_shift :: string

definition required_columns :: "string list" where
  "required_columns =
     [''ID_Viaje'', ''FECHA DE ENTREGA'', ''NOMBRE CONDUCTOR'', ''DESTINO'', ''PROYECTO'',
      ''PLACA'', ''PROPIEDAD'', ''JORNADA'']"

definition column :: "tripData \<Rightarrow> string \<Rightarrow> string" where
  "column tripData name = (case tripData name of None \<Rightarrow> [] | Some v \<Rightarrow> v)"

definition parseTripFromCSV :: "(string \<Rightarrow> thrown) \<Rightarrow> tripData \<Rightarrow> thrown + trip_fields" where
  \<comment> \<open>Modelled from the spec: the parser of utils/tripParser (section 4.1 of the spec)\<close>
  "parseTripFromCSV ValidationError tripData =
     (case filter (\<lambda>name. trim (column tripData name) = []) required_columns of
        name # _ \<Rightarrow> Inl (ValidationError name)
      | [] \<Rightarrow>
          Inr \<lparr>system_trip_id = column tripData ''ID_Viaje'',
               delivery_date = column tripData ''FECHA DE ENTREGA'',
               driver_name = column tripData ''NOMBRE CONDUCTOR'',
               destination = column tripData ''DESTINO'',
               project = column tripData ''PROYECTO'',
               plate_number = column tripData ''PLACA'',
               property_type = column tripData ''PROPIEDAD'',
               work_shift = column tripData ''JORNADA''\<rparr>)"

section \<open>TripList: the view pipeline and the selection\<close>

text \<open>
  Modelled from the spec: the types \<open>Trip\<close>, \<open>TripUpdate\<close> and \<open>SortConfig\<close> of types/, which
  is not among the sources. The records hold the fields that the component reads and the
  spec's data model names; a trip is the parsed fields and what the backend adds. The
  field \<open>id\<close> of a trip is written \<open>id'\<close>.
\<close>

record trip = trip_fields +
  id' :: string
  external_trip_id :: "string option"

record trip_update =
  trip_id :: string
  category :: string
  created_at :: string

datatype direction = asc | desc

record sort_config =
  field :: "string option"
  direction :: direction

record mouse_event =
  shiftKey :: bool

record state =
  trips :: "trip list"
  search :: string
  statusFilter :: string
  projectFilter :: string
  selectedTrip :: "trip option"
  tripUpdates :: "string \<rightharpoonup> trip_update list"
  selectedTrips :: string_set
  showDeleteModal :: bool
  lastSelectedIndex :: "nat option"
  sortConfig :: sort_config

type_synonym sorter = "trip list \<Rightarrow> sort_config \<Rightarrow> (string \<rightharpoonup> trip_update list) \<Rightarrow> trip list"

definition matchesSearch :: "state \<Rightarrow> trip \<Rightarrow> bool" where
  "matchesSearch s trip \<longleftrightarrow>
     js_includes (toLowerCase (system_trip_id trip)) (toLowerCase (search s)) \<or>
     js_includes (case external_trip_id trip of None \<Rightarrow> [] | Some e \<Rightarrow> toLowerCase e)
       (toLowerCase (search s)) \<or>
     js_includes (toLowerCase (driver_name trip)) (toLowerCase (search s))"

definition matchesStatus :: "state \<Rightarrow> trip \<Rightarrow> bool" where
  \<comment> \<open>\<open>statusFilter === 'all' || tripUpdates[trip.id]?.[0]?.category === statusFilter\<close>\<close>
  "matchesStatus s trip \<longleftrightarrow>
     statusFilter s = ''all'' \<or>
     (case tripUpdates s (id' trip) of
        None \<Rightarrow> False
      | Some [] \<Rightarrow> False
      | Some (u # _) \<Rightarrow> category u = statusFilter s)"

definition matchesProject :: "state \<Rightarrow> trip \<Rightarrow> bool" where
  "matchesProject s trip \<longleftrightarrow> projectFilter s = ''all'' \<or> project trip = projectFilter s"

definition filteredTrips :: "state \<Rightarrow> trip list" where
  "filteredTrips s =
     filter (\<lambda>trip. matchesSearch s trip \<and> matchesProject s trip \<and> matchesStatus s trip) (trips s)"

definition sortedTrips :: "sorter \<Rightarrow> state \<Rightarrow> trip list" where
  \<comment> \<open>\<open>sortTrips\<close> (utils/sorting) is not among the sources: a parameter\<close>
  "sortedTrips sortTrips s = sortTrips (filteredTrips s) (sortConfig s) (tripUpdates s)"

definition handleSelectAll :: "state \<Rightarrow> bool \<Rightarrow> state" where
  "handleSelectAll s checked =
     (if checked then s\<lparr>selectedTrips := new_Set (map id' (filteredTrips s))\<rparr>
      else s\<lparr>selectedTrips := []\<rparr>)"

definition handleSelectTrip ::
  "sorter \<Rightarrow> state \<Rightarrow> string \<Rightarrow> bool \<Rightarrow> nat \<Rightarrow> mouse_event option \<Rightarrow> thrown + state" where
  \<comment> \<open>the event is optional in the signature and read without a check\<close>
  "handleSelectTrip sortTrips s tripId checked index event =
     (case event of
        None \<Rightarrow> Inl (TypeError ''shiftKey'')
      | Some ev \<Rightarrow>
          (if shiftKey ev \<and> lastSelectedIndex s \<noteq> None then
             (let start = min (the (lastSelectedIndex s)) index;
                  stop = max (the (lastSelectedIndex s)) index
              in Inr (s\<lparr>selectedTrips :=
                    foldl (\<lambda>newSelected trip.
                             if checked then set_add newSelected (id' trip)
                             else set_delete newSelected (id' trip))
                      (selectedTrips s) (slice (sortedTrips sortTrips s) start (stop + 1))\<rparr>))
           else
             Inr (s\<lparr>selectedTrips :=
                    (if checked then set_add (selectedTrips s) tripId
                     else set_delete (selectedTrips s) tripId),
                  lastSelectedIndex := Some index\<rparr>)))"

definition tripsToDelete :: "state \<Rightarrow> string list" where
  \<comment> \<open>\<open>[selectedTrip?.id].filter(Boolean)\<close> drops \<open>undefined\<close> and the empty string\<close>
  "tripsToDelete s =
     (if length (selectedTrips s) > 0 then selectedTrips s
      else (case selectedTrip s of None \<Rightarrow> [] | Some t \<Rightarrow> filter (\<lambda>i. i \<noteq> []) [id' t]))"

definition handleDelete :: "state \<Rightarrow> thrown option \<Rightarrow> state \<times> toast" where
  \<comment> \<open>the second argument is the backend's answer to the delete: \<open>Some e\<close> for an
      \<open>error\<close> field or a rejected call\<close>
  "handleDelete s response =
     (case response of
        Some error \<Rightarrow> (s, ToastError ''Error al eliminar los viajes'')
      | None \<Rightarrow>
          (s\<lparr>trips := filter (\<lambda>trip. id' trip \<notin> set (tripsToDelete s)) (trips s),
             selectedTrips := [],
             selectedTrip := None,
             showDeleteModal := False\<rparr>,
           ToastSuccess
             (if length (tripsToDelete s) = 1 then ''Viaje eliminado correctamente''
              else digits (length (tripsToDelete s)) @ '' viajes eliminados correctamente'')))"

definition handleUpdateCreated :: "state \<Rightarrow> trip_update \<Rightarrow> state" where
  \<comment> \<open>the new update goes in front of the trip's list\<close>
  "handleUpdateCreated s newUpdate =
     s\<lparr>tripUpdates :=
         (tripUpdates s)(trip_id newUpdate \<mapsto>
            newUpdate # (case tripUpdates s (trip_id newUpdate) of None \<Rightarrow> [] | Some us \<Rightarrow> us))\<rparr>"

definition loadTripUpdates :: "state \<Rightarrow> string \<Rightarrow> thrown + trip_update list \<Rightarrow> state" where
  \<comment> \<open>the third argument is the backend's answer, newest update first; an error is only logged\<close>
  "loadTripUpdates s tripId response =
     (case response of
        Inl error \<Rightarrow> s
      | Inr data \<Rightarrow> s\<lparr>tripUpdates := (tripUpdates s)(tripId \<mapsto> data)\<rparr>)"

definition handleSort :: "state \<Rightarrow> string \<Rightarrow> state" where
  "handleSort s f =
     s\<lparr>sortConfig :=
         \<lparr>field = Some f,
          direction = (if field (sortConfig s) = Some f \<and> direction (sortConfig s) = asc
                       then desc else asc)\<rparr>\<rparr>"

text \<open>
  What the rendered component lets happen to a loaded trip collection. A row of the sorted
  view calls \<open>handleSelectTrip(trip.id, checked, index, event)\<close> with its own trip and index;
  the header checkbox calls \<open>handleSelectAll\<close>; the modal's confirmation calls
  \<open>handleDelete\<close>; the inputs set the search term and the filters; the column headers call
  \<open>handleSort\<close>; updates arrive from the backend or from the update panel. Each handler is
  one step on the state it was rendered with, and a handler that throws leaves the state
  as it was.
\<close>

datatype action =
    ToggleRow nat bool "mouse_event option"
  | SelectAll bool
  | Delete "thrown option"
  | SetSearch string
  | SetStatusFilter string
  | SetProjectFilter string
  | Sort string
  | SetSelectedTrip "trip option"
  | UpdateCreated trip_update
  | UpdatesLoaded string "thrown + trip_update list"

fun step :: "sorter \<Rightarrow> state \<Rightarrow> action \<Rightarrow> state" where
  "step sortTrips s (ToggleRow index checked event) =
     (if index < length (sortedTrips sortTrips s) then
        (case handleSelectTrip sortTrips s (id' (sortedTrips sortTrips s ! index)) checked index event of
           Inl e \<Rightarrow> s
         | Inr s' \<Rightarrow> s')
      else s)"
| "step sortTrips s (SelectAll checked) = handleSelectAll s checked"
| "step sortTrips s (Delete response) = fst (handleDelete s response)"
| "step sortTrips s (SetSearch v) = s\<lparr>search := v\<rparr>"
| "step sortTrips s (SetStatusFilter v) = s\<lparr>statusFilter := v\<rparr>"
| "step sortTrips s (SetProjectFilter v) = s\<lparr>projectFilter := v\<rparr>"
| "step sortTrips s (Sort f) = handleSort s f"
| "step sortTrips s (SetSelectedTrip t) = s\<lparr>selectedTrip := t\<rparr>"
| "step sortTrips s (UpdateCreated newUpdate) = handleUpdateCreated s newUpdate"
| "step sortTrips s (UpdatesLoaded tripId response) = loadTripUpdates s tripId response"

definition run :: "sorter \<Rightarrow> state \<Rightarrow> action list \<Rightarrow> state" where
  "run sortTrips s actions = foldl (step sortTrips) s actions"

section \<open>Scenario data\<close>

text \<open>
  For the uploader: the header of the CSV format and the data row of the spec's Scenario A,
  a row whose driver name is empty, and files made of them; \<open>accepting\<close> is a backend that
  answers every insert without an error, and \<open>not_an_error\<close> a parser failure that is not an
  \<open>Error\<close>. For the list: four loaded trips, of which the first has two updates and the
  second an empty update list, a trip whose driver's name ends in an accented letter (the
  name as written and in capitals), a sorter that keeps the order it is given and one that
  reverses it, a plain click and a click with the shift key held.
\<close>

definition accepting :: "'trip list \<Rightarrow> thrown option" where
  "accepting ts = None"

definition header_line :: string where
  "header_line = ''ID_Viaje,FECHA DE ENTREGA,NOMBRE CONDUCTOR,DESTINO,PROYECTO,PLACA,PROPIEDAD,JORNADA''"

definition valid_line :: string where
  "valid_line = ''T1,2024-01-01,Juan,CityB,ProjX,ABC123,Own,Day''"

definition invalid_line :: string where
  "invalid_line = ''T2,2024-01-02,,CityC,ProjX,ABC124,Own,Day''"

definition header_row :: "string list" where
  "header_row = required_columns"

definition valid_row :: "string list" where
  "valid_row = [''T1'', ''2024-01-01'', ''Juan'', ''CityB'', ''ProjX'', ''ABC123'', ''Own'', ''Day'']"

definition invalid_row :: "string list" where
  "invalid_row = [''T2'', ''2024-01-02'', [], ''CityC'', ''ProjX'', ''ABC124'', ''Own'', ''Day'']"

definition valid_trip :: trip_fields where
  "valid_trip =
     \<lparr>system_trip_id = ''T1'', delivery_date = ''2024-01-01'', driver_name = ''Juan'',
      destination = ''CityB'', project = ''ProjX'', plate_number = ''ABC123'',
      property_type = ''Own'', work_shift = ''Day''\<rparr>"

definition mixed_csv :: string where
  "mixed_csv = header_line @ [CHR 0x0A] @ valid_line @ [CHR 0x0A] @ invalid_line"

definition invalid_csv :: string where
  "invalid_csv = header_line @ [CHR 0x0A] @ invalid_line @ [CHR 0x0A] @ ''short,row'' @ [CHR 0x0A]"

definition ragged_csv :: string where
  "ragged_csv = header_line @ [CHR 0x0A] @ ''short,row'' @ [CHR 0x0A] @ valid_line"

definition valid_csv :: string where
  "valid_csv = header_line @ [CHR 0x0A] @ valid_line @ [CHR 0x0A]"

definition trip_of :: "string \<Rightarrow> string \<Rightarrow> string option \<Rightarrow> string \<Rightarrow> string \<Rightarrow> trip" where
  "trip_of i sys ext driver proj =
     \<lparr>system_trip_id = sys, delivery_date = ''2024-01-01'', driver_name = driver,
      destination = ''CityB'', project = proj, plate_number = ''ABC123'',
      property_type = ''Own'', work_shift = ''Day'', id' = i, external_trip_id = ext\<rparr>"

definition trip_a :: trip where
  "trip_a = trip_of ''a'' ''T1'' None ''Juan'' ''ProjX''"

definition trip_b :: trip where
  "trip_b = trip_of ''b'' ''T2'' (Some ''EXT-9'') ''Ana'' ''ProjX''"

definition trip_c :: trip where
  "trip_c = trip_of ''c'' ''T3'' None ''Luis'' ''ProjY''"

definition trip_d :: trip where
  "trip_d = trip_of ''d'' ''T4'' None ''Marta'' ''ProjY''"

definition four_trips :: "trip list" where
  "four_trips = [trip_a, trip_b, trip_c, trip_d]"

definition loaded :: state where
  "loaded =
     \<lparr>trips = four_trips, search = [], statusFilter = ''all'', projectFilter = ''all'',
      selectedTrip = None,
      tripUpdates = [''a'' \<mapsto> [\<lparr>trip_id = ''a'', category = ''delivered'', created_at = ''2024-01-02''\<rparr>,
                               \<lparr>trip_id = ''a'', category = ''in_transit'', created_at = ''2024-01-01''\<rparr>],
                     ''b'' \<mapsto> []],
      selectedTrips = [], showDeleteModal = False, lastSelectedIndex = None,
      sortConfig = \<lparr>field = None, direction = asc\<rparr>\<rparr>"

definition two_selected :: state where
  "two_selected = loaded\<lparr>selectedTrips := [''b'', ''d'']\<rparr>"

definition anchored :: state where
  "anchored = loaded\<lparr>selectedTrips := [''c''], lastSelectedIndex := Some 2\<rparr>"

definition keep_order :: sorter where
  "keep_order xs config updates = xs"

definition backwards :: sorter where
  "backwards xs config updates = rev xs"

definition click :: "mouse_event" where
  "click = \<lparr>shiftKey = False\<rparr>"

definition shift_click :: "mouse_event" where
  "shift_click = \<lparr>shiftKey = True\<rparr>"

definition session :: "action list" where
  "session =
     [ToggleRow 1 True (Some click), ToggleRow 3 True (Some shift_click),
      ToggleRow 0 True None, SetProjectFilter ''ProjY'', ToggleRow 0 False (Some click),
      Delete (Some NonError), Delete None, SelectAll True]"

definition not_an_error :: "string \<Rightarrow> thrown" where
  "not_an_error name = NonError"




section \<open>The string operations on examples\<close>

text \<open>
  \<open>trim\<close> strips the no-break space, the ideographic space and the byte order mark as well
  as the ASCII white space, and strips nothing inside the text. \<open>toLowerCase\<close> maps accented
  and non-Latin capitals, gives two code points for U+0130, and writes the capital sigma
  as the final small sigma at the end of a word only.
\<close>

lemma trim_examples:
  "trim ([CHR 0xC2, CHR 0xA0] @ '' Juan  P '' @ [CHR 0x0D] @ utf8_encode [0x3000, 0xFEFF]) = ''Juan  P''"
  "trim (utf8_encode [0xA0, 0x2003, 0x09]) = []"
  "trim (utf8_encode [0x200B, 0x41, 0x85]) = utf8_encode [0x200B, 0x41, 0x85]"
  by code_simp+

lemma toLowerCase_examples:
  "toLowerCase ''EXT-9 Az[`{'' = ''ext-9 az[`{''"
  "utf8_decode (toLowerCase (utf8_encode [0x50, 0x45, 0xD1, 0x41])) = [0x70, 0x65, 0xF1, 0x61]"
  "utf8_decode (toLowerCase (utf8_encode [0x391, 0x3A3])) = [0x3B1, 0x3C2]"
  "utf8_decode (toLowerCase (utf8_encode [0x391, 0x3A3, 0x391])) = [0x3B1, 0x3C3, 0x3B1]"
  "utf8_decode (toLowerCase (utf8_encode [0x130, 0x416, 0x10400, 0x1E9E, 0xDF, 0xD7]))
     = [0x69, 0x307, 0x436, 0x10428, 0xDF, 0xDF, 0xD7]"
  by code_simp+

section \<open>The upload handler: which rows are parsed, and when the upload fails\<close>

lemma js_split_nonempty: "js_split sep s \<noteq> []"
  by (induction s) (auto split: list.splits)

lemma csv_rows_nonempty: "csv_rows csv \<noteq> []"
  by (simp add: csv_rows_def js_split_nonempty)

lemma map_rows_calls_subset: "set (fst (map_rows p hs rows)) \<subseteq> set rows"
  by (induction rows) (auto split: sum.splits prod.splits)

lemma map_rows_all:
  "map (parse_row p hs) rows = map Inr ts \<Longrightarrow> snd (map_rows p hs rows) = Inr ts"
  by (induction rows arbitrary: ts) (auto simp: parse_row_def split: sum.splits prod.splits)

lemma map_rows_fail:
  "row \<in> set rows \<Longrightarrow> parse_row p hs row = Inl e \<Longrightarrow> \<exists>e'. snd (map_rows p hs rows) = Inl e'"
  by (induction rows) (auto simp: parse_row_def split: sum.splits prod.splits)

lemma map_rows_Inr:
  "snd (map_rows p hs rows) = Inr ts \<Longrightarrow> map (parse_row p hs) rows = map Inr ts"
  by (induction rows arbitrary: ts) (auto simp: parse_row_def split: sum.splits prod.splits)

lemma map_rows_first_failure:
  "map (parse_row p hs) pre = map Inr ts \<Longrightarrow> parse_row p hs row = Inl e \<Longrightarrow>
   fill_tripData hs row 0 Map.empty = Inr td \<Longrightarrow>
   map_rows p hs (pre @ row # post) = (pre @ [row], Inl e)"
  by (induction pre arbitrary: ts) (auto simp: parse_row_def split: sum.splits prod.splits)

lemma fill_tripData_ok:
  "index + length headers \<le> length row \<Longrightarrow> \<exists>td. fill_tripData headers row index m = Inr td"
  by (induction headers arbitrary: index m) auto

lemma catch_message_simps [simp]:
  "catch_message (ErrorInstance m) = m"
  "catch_message NonError = ''Error al cargar los viajes''"
  by (simp_all add: catch_message_def)

lemma onDrop_file:
  assumes "csv_rows csv = row0 # data"
  shows "onDrop parse insert_trips True (csv # rest) =
     (case map_rows parse (map trim row0) (filter (\<lambda>row. length row = length row0) data) of
        (calls, Inl e) \<Rightarrow>
          \<lparr>parsed = calls, sent = None, notice = Some (ToastError (catch_message e))\<rparr>
      | (calls, Inr ts) \<Rightarrow>
          (if ts = [] then
             \<lparr>parsed = calls, sent = None,
              notice = Some (ToastError (catch_message (ErrorInstance no_valid_trips)))\<rparr>
           else
             (case insert_trips ts of
                Some uploadError \<Rightarrow>
                  \<lparr>parsed = calls, sent = Some ts,
                   notice = Some (ToastError (catch_message uploadError))\<rparr>
              | None \<Rightarrow>
                  \<lparr>parsed = calls, sent = Some ts,
                   notice = Some (ToastSuccess
                     (''Se cargaron '' @ digits (length ts) @ '' viajes exitosamente''))\<rparr>)))"
  using assms by (simp add: onDrop_def Let_def)

text \<open>
  Claim C1, as the code has it. A row that passes the column-count check and fails in the
  parser is not set aside: the error leaves the \<open>.map\<close> at the first such row, no later row
  is parsed, nothing is sent to the backend, and the toast shows that error's message (the
  generic text when the thrown value is not an \<open>Error\<close>). The backend insert is called if
  and only if every row that passed the column-count check parses and there is at least
  one such row; it is then called with the records of all of them, in file order.
\<close>

theorem upload_aborts_on_invalid_row:
  assumes "csv_rows csv = row0 # data"
  shows "(row \<in> set data \<and> length row = length row0 \<and>
            parse_row parse (map trim row0) row = Inl e \<longrightarrow>
          sent (onDrop parse insert_trips True (csv # rest)) = None \<and>
          (\<exists>m. notice (onDrop parse insert_trips True (csv # rest)) = Some (ToastError m))) \<and>
         (filter (\<lambda>row. length row = length row0) data = pre @ row # post \<and>
            map (parse_row parse (map trim row0)) pre = map Inr parsed_before \<and>
            parse_row parse (map trim row0) row = Inl e \<longrightarrow>
          parsed (onDrop parse insert_trips True (csv # rest)) = pre @ [row] \<and>
          sent (onDrop parse insert_trips True (csv # rest)) = None \<and>
          notice (onDrop parse insert_trips True (csv # rest)) =
            Some (ToastError (case e of ErrorInstance m \<Rightarrow> m
                                      | NonError \<Rightarrow> ''Error al cargar los viajes''))) \<and>
         (sent (onDrop parse insert_trips True (csv # rest)) = Some ts \<longleftrightarrow>
          map (parse_row parse (map trim row0)) (filter (\<lambda>row. length row = length row0) data)
            = map Inr ts \<and> ts \<noteq> [])"
proof -
  let ?hs = "map trim row0"
  let ?cands = "filter (\<lambda>r. length r = length row0) data"
  let ?r = "onDrop parse insert_trips True (csv # rest)"
  note unfold = onDrop_file [OF assms, of parse insert_trips rest]
  have fails: "sent ?r = None \<and> (\<exists>m. notice ?r = Some (ToastError m))"
    if "row \<in> set data" "length row = length row0" "parse_row parse ?hs row = Inl e"
  proof -
    from that have "row \<in> set ?cands" by simp
    with that(3) obtain e' where "snd (map_rows parse ?hs ?cands) = Inl e'"
      using map_rows_fail by blast
    then show ?thesis
      by (cases "map_rows parse ?hs ?cands") (auto simp: unfold)
  qed
  have first: "parsed ?r = pre @ [row] \<and> sent ?r = None \<and>
      notice ?r = Some (ToastError (case e of ErrorInstance m \<Rightarrow> m
                                      | NonError \<Rightarrow> ''Error al cargar los viajes''))"
    if split: "?cands = pre @ row # post"
      and pre: "map (parse_row parse ?hs) pre = map Inr parsed_before"
      and row: "parse_row parse ?hs row = Inl e"
  proof -
    have "row \<in> set ?cands" using split by simp
    then have "length row = length ?hs" by simp
    then obtain td where "fill_tripData ?hs row 0 Map.empty = Inr td"
      using fill_tripData_ok [of 0 ?hs row Map.empty] by auto
    from map_rows_first_failure [OF pre row this, of post]
    have "map_rows parse ?hs ?cands = (pre @ [row], Inl e)" using split by simp
    then show ?thesis by (simp add: unfold catch_message_def)
  qed
  have proceeds: "sent ?r = Some ts \<longleftrightarrow> map (parse_row parse ?hs) ?cands = map Inr ts \<and> ts \<noteq> []"
  proof
    assume sent: "sent ?r = Some ts"
    then obtain calls where "map_rows parse ?hs ?cands = (calls, Inr ts)" and "ts \<noteq> []"
      by (cases "map_rows parse ?hs ?cands")
        (auto simp: unfold split: sum.splits if_splits option.splits)
    then show "map (parse_row parse ?hs) ?cands = map Inr ts \<and> ts \<noteq> []"
      using map_rows_Inr [of parse ?hs ?cands ts] by simp
  next
    assume all: "map (parse_row parse ?hs) ?cands = map Inr ts \<and> ts \<noteq> []"
    then have "snd (map_rows parse ?hs ?cands) = Inr ts" by (simp add: map_rows_all)
    with all show "sent ?r = Some ts"
      by (cases "map_rows parse ?hs ?cands") (auto simp: unfold split: option.splits)
  qed
  from fails first proceeds show ?thesis by blast
qed

theorem upload_aborts_on_invalid_row_witness:
  "csv_rows mixed_csv = [header_row, valid_row, invalid_row] \<and>
   parse_row (parseTripFromCSV ErrorInstance) (map trim header_row) valid_row = Inr valid_trip \<and>
   parse_row (parseTripFromCSV ErrorInstance) (map trim header_row) invalid_row
     = Inl (ErrorInstance ''NOMBRE CONDUCTOR'') \<and>
   parsed (onDrop (parseTripFromCSV ErrorInstance) accepting True [mixed_csv])
     = [valid_row, invalid_row] \<and>
   sent (onDrop (parseTripFromCSV ErrorInstance) accepting True [mixed_csv]) = None \<and>
   notice (onDrop (parseTripFromCSV ErrorInstance) accepting True [mixed_csv])
     = Some (ToastError ''NOMBRE CONDUCTOR'') \<and>
   (\<exists>m. notice (onDrop (parseTripFromCSV ErrorInstance) accepting True [mixed_csv])
          = Some (ToastError m)) \<and>
   csv_rows valid_csv = [header_row, valid_row, [[]]] \<and>
   sent (onDrop (parseTripFromCSV ErrorInstance) accepting True [valid_csv]) = Some [valid_trip] \<and>
   csv_rows header_line = [header_row] \<and>
   sent (onDrop (parseTripFromCSV ErrorInstance) accepting True [header_line]) \<noteq> Some []"
proof -
  let ?P = "parseTripFromCSV ErrorInstance"
  have rows: "csv_rows mixed_csv = header_row # [valid_row, invalid_row]"
    by code_simp
  have bad: "parse_row ?P (map trim header_row) invalid_row = Inl (ErrorInstance ''NOMBRE CONDUCTOR'')"
    by code_simp
  have len: "length header_row = 8" "length invalid_row = 8" "length valid_row = 8"
    by (simp_all add: header_row_def required_columns_def invalid_row_def valid_row_def)
  have rows': "csv_rows valid_csv = header_row # [valid_row, [[]]]"
    by code_simp
  have rows0: "csv_rows header_line = header_row # []"
    by code_simp
  have good: "parse_row ?P (map trim header_row) valid_row = Inr valid_trip"
    by code_simp
  have cands: "filter (\<lambda>row. length row = length header_row) [valid_row, invalid_row]
      = [valid_row] @ invalid_row # []"
    using len by simp
  have before: "map (parse_row ?P (map trim header_row)) [valid_row] = map Inr [valid_trip]"
    using good by simp
  have all: "map (parse_row ?P (map trim header_row))
               (filter (\<lambda>row. length row = length header_row) [valid_row, [[]]])
             = map Inr [valid_trip]"
    using good len by simp
  note aborted = upload_aborts_on_invalid_row [OF rows, where row = invalid_row and parse = ?P
      and e = "ErrorInstance ''NOMBRE CONDUCTOR''" and insert_trips = accepting and rest = "[]"
      and pre = "[valid_row]" and post = "[]" and parsed_before = "[valid_trip]" and ts = "[]"]
  note proceeded = upload_aborts_on_invalid_row [OF rows', where row = invalid_row and parse = ?P
      and e = "ErrorInstance ''NOMBRE CONDUCTOR''" and insert_trips = accepting and rest = "[]"
      and pre = "[]" and post = "[]" and parsed_before = "[]" and ts = "[valid_trip]"]
  note header_only = upload_aborts_on_invalid_row [OF rows0, where row = invalid_row and parse = ?P
      and e = "ErrorInstance ''NOMBRE CONDUCTOR''" and insert_trips = accepting and rest = "[]"
      and pre = "[]" and post = "[]" and parsed_before = "[]" and ts = "[]"]
  from aborted cands before bad
  have a: "parsed (onDrop ?P accepting True [mixed_csv]) = [valid_row, invalid_row] \<and>
      sent (onDrop ?P accepting True [mixed_csv]) = None \<and>
      notice (onDrop ?P accepting True [mixed_csv]) = Some (ToastError ''NOMBRE CONDUCTOR'')"
    by simp
  from proceeded all
  have p: "sent (onDrop ?P accepting True [valid_csv]) = Some [valid_trip]"
    by simp
  from header_only
  have h: "sent (onDrop ?P accepting True [header_line]) \<noteq> Some []"
    by simp
  from rows rows' rows0 good bad a p h show ?thesis by simp
qed

text \<open>
  Claim C1 as stated fails on a file with the header, the valid row and the row without a
  driver name: both rows pass the column-count check, the first parses, the second fails
  the required-field check, and nothing is sent.
\<close>

theorem upload_with_invalid_row_counterexample:
  "csv_rows mixed_csv = [header_row, valid_row, invalid_row] \<and>
   length valid_row = length header_row \<and>
   length invalid_row = length header_row \<and>
   parse_row (parseTripFromCSV ErrorInstance) (map trim header_row) valid_row = Inr valid_trip \<and>
   parse_row (parseTripFromCSV ErrorInstance) (map trim header_row) invalid_row
     = Inl (ErrorInstance ''NOMBRE CONDUCTOR'') \<and>
   sent (onDrop (parseTripFromCSV ErrorInstance) accepting True [mixed_csv]) = None"
  by code_simp

text \<open>
  Claim C2. When no row of the file yields a trip record (no data row passes the
  column-count check, or none of those that pass parses), the backend insert is not called
  and the upload ends in an error toast. With no row to parse at all, as for a file of a
  header alone, the toast is the handler's own message. Otherwise it is the message of the
  error that the parser raised for the first row it was given (the generic text when the
  thrown value is not an \<open>Error\<close>), and no other row is parsed.
\<close>

theorem upload_without_valid_trips_fails:
  assumes "isAuthenticated" and "acceptedFiles = csv # rest" and "csv_rows csv = row0 # data"
    and none_valid: "\<forall>row \<in> set data. length row = length row0 \<longrightarrow>
            (\<forall>trip. parse_row parse (map trim row0) row \<noteq> Inr trip)"
  shows "sent (onDrop parse insert_trips isAuthenticated acceptedFiles) = None \<and>
         (\<exists>m. notice (onDrop parse insert_trips isAuthenticated acceptedFiles)
                = Some (ToastError m)) \<and>
         (filter (\<lambda>row. length row = length row0) data = [] \<longrightarrow>
            notice (onDrop parse insert_trips isAuthenticated acceptedFiles)
              = Some (ToastError no_valid_trips)) \<and>
         (\<forall>row later. filter (\<lambda>row. length row = length row0) data = row # later \<longrightarrow>
            (\<exists>e. parse_row parse (map trim row0) row = Inl e \<and>
                 parsed (onDrop parse insert_trips isAuthenticated acceptedFiles) = [row] \<and>
                 notice (onDrop parse insert_trips isAuthenticated acceptedFiles) =
                   Some (ToastError (case e of ErrorInstance m \<Rightarrow> m
                                             | NonError \<Rightarrow> ''Error al cargar los viajes''))))"
proof -
  let ?hs = "map trim row0"
  let ?cands = "filter (\<lambda>r. length r = length row0) data"
  let ?r = "onDrop parse insert_trips isAuthenticated acceptedFiles"
  note unfold = onDrop_file [OF assms(3), of parse insert_trips rest]
  have r: "?r = onDrop parse insert_trips True (csv # rest)"
    using assms(1,2) by simp
  show ?thesis
  proof (cases "?cands")
    case Nil
    then show ?thesis by (simp add: r unfold)
  next
    case (Cons c cs)
    then have "c \<in> set ?cands" by simp
    then have c: "c \<in> set data" "length c = length row0" by auto
    with none_valid obtain e where e: "parse_row parse ?hs c = Inl e"
      by (cases "parse_row parse ?hs c") auto
    from c(2) obtain td where "fill_tripData ?hs c 0 Map.empty = Inr td"
      using fill_tripData_ok [of 0 ?hs c Map.empty] by auto
    from map_rows_first_failure [of parse ?hs "[]" "[]", OF _ e this, of cs]
    have "map_rows parse ?hs ?cands = ([c], Inl e)" using Cons by simp
    then show ?thesis using Cons e
      by (simp add: r unfold catch_message_def)
  qed
qed

theorem upload_without_valid_trips_fails_witness:
  "csv_rows invalid_csv = [header_row, invalid_row, [''short'', ''row''], [[]]] \<and>
   parsed (onDrop (parseTripFromCSV ErrorInstance) accepting True [invalid_csv]) = [invalid_row] \<and>
   sent (onDrop (parseTripFromCSV ErrorInstance) accepting True [invalid_csv]) = None \<and>
   notice (onDrop (parseTripFromCSV ErrorInstance) accepting True [invalid_csv])
     = Some (ToastError ''NOMBRE CONDUCTOR'') \<and>
   sent (onDrop (parseTripFromCSV not_an_error) accepting True [invalid_csv]) = None \<and>
   notice (onDrop (parseTripFromCSV not_an_error) accepting True [invalid_csv])
     = Some (ToastError ''Error al cargar los viajes'') \<and>
   csv_rows header_line = [header_row] \<and>
   sent (onDrop (parseTripFromCSV ErrorInstance) accepting True [header_line]) = None \<and>
   notice (onDrop (parseTripFromCSV ErrorInstance) accepting True [header_line])
     = Some (ToastError no_valid_trips)"
proof -
  let ?P = "parseTripFromCSV ErrorInstance"
  let ?Q = "parseTripFromCSV not_an_error"
  have rows: "csv_rows invalid_csv = header_row # [invalid_row, [''short'', ''row''], [[]]]"
    by code_simp
  have bad: "parse_row ?P (map trim header_row) invalid_row = Inl (ErrorInstance ''NOMBRE CONDUCTOR'')"
    by code_simp
  have bad': "parse_row ?Q (map trim header_row) invalid_row = Inl NonError"
    by code_simp
  have len: "length header_row = 8" "length invalid_row = 8"
    by (simp_all add: header_row_def required_columns_def invalid_row_def)
  have none: "\<forall>row \<in> set [invalid_row, [''short'', ''row''], [[]]].
      length row = length header_row \<longrightarrow> (\<forall>trip. parse_row ?P (map trim header_row) row \<noteq> Inr trip)"
    using bad len by simp
  have none': "\<forall>row \<in> set [invalid_row, [''short'', ''row''], [[]]].
      length row = length header_row \<longrightarrow> (\<forall>trip. parse_row ?Q (map trim header_row) row \<noteq> Inr trip)"
    using bad' len by simp
  have cands: "filter (\<lambda>row. length row = length header_row) [invalid_row, [''short'', ''row''], [[]]]
      = [invalid_row]"
    using len by simp
  have rows0: "csv_rows header_line = header_row # []"
    by code_simp
  have none0: "\<forall>row \<in> set []. length row = length header_row \<longrightarrow>
      (\<forall>trip. parse_row ?P (map trim header_row) row \<noteq> Inr trip)"
    by simp
  from upload_without_valid_trips_fails [OF TrueI refl rows none, of accepting] cands bad
  have a: "parsed (onDrop ?P accepting True [invalid_csv]) = [invalid_row] \<and>
      sent (onDrop ?P accepting True [invalid_csv]) = None \<and>
      notice (onDrop ?P accepting True [invalid_csv]) = Some (ToastError ''NOMBRE CONDUCTOR'')"
    by auto
  from upload_without_valid_trips_fails [OF TrueI refl rows none', of accepting] cands bad'
  have b: "sent (onDrop ?Q accepting True [invalid_csv]) = None \<and>
      notice (onDrop ?Q accepting True [invalid_csv]) = Some (ToastError ''Error al cargar los viajes'')"
    by auto
  from upload_without_valid_trips_fails [OF TrueI refl rows0 none0, of accepting]
  have c: "sent (onDrop ?P accepting True [header_line]) = None \<and>
      notice (onDrop ?P accepting True [header_line]) = Some (ToastError no_valid_trips)"
    by simp
  from rows rows0 a b c show ?thesis by simp
qed

text \<open>
  Claim C3. Every row for which the parser is called is a data row of the uploaded file
  with as many fields as the header row: a data row with another field count never reaches
  the parser.
\<close>

theorem only_matching_rows_reach_parser:
  assumes "row \<in> set (parsed (onDrop parse insert_trips isAuthenticated acceptedFiles))"
  shows "\<exists>csv rest row0 data.
           acceptedFiles = csv # rest \<and> csv_rows csv = row0 # data \<and>
           row \<in> set data \<and> length row = length row0"
proof -
  from assms obtain csv rest where files: "acceptedFiles = csv # rest" and auth: isAuthenticated
    by (cases acceptedFiles; cases isAuthenticated) (auto simp: onDrop_def)
  obtain row0 data where rows: "csv_rows csv = row0 # data"
    using csv_rows_nonempty [of csv] by (cases "csv_rows csv") auto
  let ?cands = "filter (\<lambda>r. length r = length row0) data"
  have "parsed (onDrop parse insert_trips isAuthenticated acceptedFiles)
          = fst (map_rows parse (map trim row0) ?cands)"
    using files auth onDrop_file [OF rows, of parse insert_trips rest]
    by (simp split: prod.splits sum.splits option.splits)
  with assms have "row \<in> set ?cands"
    using map_rows_calls_subset [of parse "map trim row0" ?cands] by auto
  then show ?thesis using files rows by auto
qed

theorem only_matching_rows_reach_parser_witness:
  "valid_row \<in> set (parsed (onDrop (parseTripFromCSV ErrorInstance) accepting True [ragged_csv])) \<and>
   [''short'', ''row''] \<in> set (tl (csv_rows ragged_csv)) \<and>
   [''short'', ''row''] \<notin> set (parsed (onDrop (parseTripFromCSV ErrorInstance) accepting True [ragged_csv])) \<and>
   (\<exists>csv rest row0 data.
       [ragged_csv] = csv # rest \<and> csv_rows csv = row0 # data \<and>
       valid_row \<in> set data \<and> length valid_row = length row0)"
proof -
  have h: "valid_row \<in> set (parsed (onDrop (parseTripFromCSV ErrorInstance) accepting True [ragged_csv]))"
    by code_simp
  have s: "[''short'', ''row''] \<in> set (tl (csv_rows ragged_csv))"
    by code_simp
  have n: "[''short'', ''row''] \<notin> set (parsed (onDrop (parseTripFromCSV ErrorInstance) accepting True [ragged_csv]))"
    by code_simp
  from only_matching_rows_reach_parser [OF h] h s n show ?thesis by blast
qed

section \<open>The view pipeline\<close>


lemma set_filteredTrips: "set (filteredTrips s) \<subseteq> set (trips s)"
  by (auto simp: filteredTrips_def)

lemma filteredTrips_frame [simp]:
  "filteredTrips (s\<lparr>selectedTrips := x\<rparr>) = filteredTrips s"
  "filteredTrips (s\<lparr>lastSelectedIndex := y\<rparr>) = filteredTrips s"
  "filteredTrips (s\<lparr>selectedTrip := z\<rparr>) = filteredTrips s"
  "filteredTrips (s\<lparr>sortConfig := c\<rparr>) = filteredTrips s"
  by (simp_all add: filteredTrips_def matchesSearch_def matchesProject_def matchesStatus_def
      cong: option.case_cong list.case_cong)

lemma sortedTrips_frame [simp]:
  "sortedTrips sortTrips (s\<lparr>selectedTrips := x\<rparr>) = sortedTrips sortTrips s"
  "sortedTrips sortTrips (s\<lparr>lastSelectedIndex := y\<rparr>) = sortedTrips sortTrips s"
  by (simp_all add: sortedTrips_def)








text \<open>
  Claim C7. The status condition of the filter holds for a trip exactly when the status
  filter is \<open>all\<close> or the first (most recent) update of the trip has the filter's category.
  A trip without updates, be it no entry or an empty list, is never kept by another status
  filter than \<open>all\<close>.
\<close>

theorem status_filter_keeps:
  "(matchesStatus s trip \<longleftrightarrow>
      statusFilter s = ''all'' \<or>
      (\<exists>u older. tripUpdates s (id' trip) = Some (u # older) \<and> category u = statusFilter s)) \<and>
   (trip \<in> set (filteredTrips s) \<longleftrightarrow>
      trip \<in> set (trips s) \<and> matchesSearch s trip \<and> matchesProject s trip \<and> matchesStatus s trip) \<and>
   ((tripUpdates s (id' trip) = None \<or> tripUpdates s (id' trip) = Some []) \<and>
      statusFilter s \<noteq> ''all'' \<longrightarrow> trip \<notin> set (filteredTrips s))"
  by (auto simp: matchesStatus_def filteredTrips_def split: option.splits list.splits)

theorem status_filter_keeps_witness:
  "matchesStatus (loaded\<lparr>statusFilter := ''delivered''\<rparr>) trip_a \<and>
   (\<exists>u older. tripUpdates (loaded\<lparr>statusFilter := ''delivered''\<rparr>) (id' trip_a) = Some (u # older) \<and>
       category u = ''delivered'') \<and>
   trip_a \<in> set (filteredTrips (loaded\<lparr>statusFilter := ''delivered''\<rparr>)) \<and>
   tripUpdates (loaded\<lparr>statusFilter := ''delivered''\<rparr>) (id' trip_b) = Some [] \<and>
   trip_b \<notin> set (filteredTrips (loaded\<lparr>statusFilter := ''delivered''\<rparr>)) \<and>
   tripUpdates (loaded\<lparr>statusFilter := ''delivered''\<rparr>) (id' trip_c) = None \<and>
   trip_c \<notin> set (filteredTrips (loaded\<lparr>statusFilter := ''delivered''\<rparr>)) \<and>
   \<not> matchesStatus (loaded\<lparr>statusFilter := ''in_transit''\<rparr>) trip_a \<and>
   trip_c \<in> set (filteredTrips loaded)"
proof -
  let ?s = "loaded\<lparr>statusFilter := ''delivered''\<rparr>"
  have a: "matchesStatus ?s trip_a" "trip_a \<in> set (trips ?s)" "matchesSearch ?s trip_a"
    "matchesProject ?s trip_a" "statusFilter ?s = ''delivered''" "statusFilter ?s \<noteq> ''all''"
    by code_simp+
  have b: "tripUpdates ?s (id' trip_b) = Some []" by code_simp
  have c: "tripUpdates ?s (id' trip_c) = None" by code_simp
  have t: "\<not> matchesStatus (loaded\<lparr>statusFilter := ''in_transit''\<rparr>) trip_a" by code_simp
  have l: "trip_c \<in> set (filteredTrips loaded)" by code_simp
  from status_filter_keeps [of ?s trip_a] status_filter_keeps [of ?s trip_b]
    status_filter_keeps [of ?s trip_c] a b c t l
  show ?thesis by simp
qed

section \<open>The selection\<close>

lemma set_set_add [simp]: "set (set_add s x) = insert x (set s)"
  by (auto simp: set_add_def)

lemma set_set_delete [simp]: "set (set_delete s x) = set s - {x}"
  by (auto simp: set_delete_def)

lemma set_foldl_set_add: "set (foldl set_add acc xs) = set acc \<union> set xs"
  by (induction xs arbitrary: acc) auto

lemma set_new_Set [simp]: "set (new_Set xs) = set xs"
  by (simp add: new_Set_def set_foldl_set_add)

lemma set_foldl_toggle:
  "set (foldl (\<lambda>newSelected trip. if checked then set_add newSelected (id' trip)
                                   else set_delete newSelected (id' trip)) acc ts)
   = (if checked then set acc \<union> id' ` set ts else set acc - id' ` set ts)"
  by (induction ts arbitrary: acc) auto

lemma set_slice:
  "set (slice xs lo (hi + 1)) = {xs ! k | k. lo \<le> k \<and> k \<le> hi \<and> k < length xs}"
proof (intro set_eqI iffI)
  fix x assume "x \<in> set (slice xs lo (hi + 1))"
  then obtain j where j: "j < length (take (hi + 1 - lo) (drop lo xs))"
      and x: "x = take (hi + 1 - lo) (drop lo xs) ! j"
    by (auto simp: slice_def in_set_conv_nth)
  from j have "j < hi + 1 - lo" "lo + j < length xs" by auto
  with x have "x = xs ! (lo + j)" "lo \<le> lo + j" "lo + j \<le> hi" by auto
  with \<open>lo + j < length xs\<close> show "x \<in> {xs ! k | k. lo \<le> k \<and> k \<le> hi \<and> k < length xs}"
    by blast
next
  fix x assume "x \<in> {xs ! k | k. lo \<le> k \<and> k \<le> hi \<and> k < length xs}"
  then obtain k where k: "x = xs ! k" "lo \<le> k" "k \<le> hi" "k < length xs" by blast
  then have "k - lo < length (take (hi + 1 - lo) (drop lo xs))"
    and "take (hi + 1 - lo) (drop lo xs) ! (k - lo) = x"
    by auto
  then show "x \<in> set (slice xs lo (hi + 1))"
    unfolding slice_def in_set_conv_nth by blast
qed

lemma slice_ids:
  "id' ` set (slice view lo (hi + 1)) = {id' (view ! k) | k. lo \<le> k \<and> k \<le> hi \<and> k < length view}"
  unfolding set_slice by blast

lemma handleSelectTrip_range:
  assumes "shiftKey ev" and "lastSelectedIndex s = Some anchor"
  shows "\<exists>s'. handleSelectTrip sortTrips s tripId checked index (Some ev) = Inr s' \<and>
            lastSelectedIndex s' = Some anchor \<and> trips s' = trips s \<and>
            set (selectedTrips s') =
              (if checked
               then set (selectedTrips s) \<union>
                    id' ` set (slice (sortedTrips sortTrips s) (min anchor index) (max anchor index + 1))
               else set (selectedTrips s) -
                    id' ` set (slice (sortedTrips sortTrips s) (min anchor index) (max anchor index + 1)))"
  using assms by (simp add: handleSelectTrip_def Let_def set_foldl_toggle)

lemma handleSelectTrip_plain:
  assumes "\<not> shiftKey ev \<or> lastSelectedIndex s = None"
  shows "handleSelectTrip sortTrips s tripId checked index (Some ev) =
           Inr (s\<lparr>selectedTrips := (if checked then set_add (selectedTrips s) tripId
                                     else set_delete (selectedTrips s) tripId),
                  lastSelectedIndex := Some index\<rparr>)"
  using assms by (auto simp: handleSelectTrip_def)

text \<open>
  Claim C8. Select-all with the box checked selects exactly the ids of the filtered trips,
  which are the ids of the sorted view whenever the sorter returns trips with the ids it
  was given; these are ids of the collection, and only those the filters let through. With
  the box unchecked the selection becomes empty.
\<close>

theorem select_all_selects_view:
  "set (selectedTrips (handleSelectAll s True)) = id' ` set (filteredTrips s) \<and>
   (id' ` set (sortTrips (filteredTrips s) (sortConfig s) (tripUpdates s))
      = id' ` set (filteredTrips s) \<longrightarrow>
      set (selectedTrips (handleSelectAll s True)) = id' ` set (sortedTrips sortTrips s)) \<and>
   set (selectedTrips (handleSelectAll s True)) \<subseteq> id' ` set (trips s) \<and>
   selectedTrips (handleSelectAll s False) = []"
  using set_filteredTrips [of s] by (auto simp: handleSelectAll_def sortedTrips_def)

theorem select_all_selects_view_witness:
  "id' ` set (backwards (filteredTrips (loaded\<lparr>projectFilter := ''ProjY''\<rparr>))
          (sortConfig (loaded\<lparr>projectFilter := ''ProjY''\<rparr>))
          (tripUpdates (loaded\<lparr>projectFilter := ''ProjY''\<rparr>)))
     = id' ` set (filteredTrips (loaded\<lparr>projectFilter := ''ProjY''\<rparr>)) \<and>
   map id' (sortedTrips backwards (loaded\<lparr>projectFilter := ''ProjY''\<rparr>)) = [''d'', ''c''] \<and>
   map id' (trips (loaded\<lparr>projectFilter := ''ProjY''\<rparr>)) = [''a'', ''b'', ''c'', ''d''] \<and>
   selectedTrips (handleSelectAll (loaded\<lparr>projectFilter := ''ProjY''\<rparr>) True) = [''c'', ''d''] \<and>
   set (selectedTrips (handleSelectAll (loaded\<lparr>projectFilter := ''ProjY''\<rparr>) True))
     = id' ` set (sortedTrips backwards (loaded\<lparr>projectFilter := ''ProjY''\<rparr>)) \<and>
   selectedTrips (handleSelectAll (loaded\<lparr>projectFilter := ''ProjY''\<rparr>) False) = []"
proof -
  let ?s = "loaded\<lparr>projectFilter := ''ProjY''\<rparr>"
  have perm: "id' ` set (backwards (filteredTrips ?s) (sortConfig ?s) (tripUpdates ?s))
      = id' ` set (filteredTrips ?s)"
    by (simp add: backwards_def)
  have view: "map id' (sortedTrips backwards ?s) = [''d'', ''c'']" by code_simp
  have all: "map id' (trips ?s) = [''a'', ''b'', ''c'', ''d'']" by code_simp
  have sel: "selectedTrips (handleSelectAll ?s True) = [''c'', ''d'']" by code_simp
  note view_selected = select_all_selects_view [of ?s backwards]
  from view_selected perm
  have eq: "set (selectedTrips (handleSelectAll ?s True)) = id' ` set (sortedTrips backwards ?s)"
    by blast
  from view_selected have off: "selectedTrips (handleSelectAll ?s False) = []"
    by blast
  from perm view all sel eq off show ?thesis by blast
qed

text \<open>
  Claim C5. A toggle with the shift key held and an anchor present gives the checked state
  to every row of the current view whose index lies between the anchor and the toggled
  index, both included, leaves the rest of the selection alone and keeps the anchor. Any
  other toggle with an event changes the one trip and makes the toggled index the anchor.
  Scenario E: in a view of at least four rows, checking row 0 and then checking row 3 with
  shift held adds the trips of rows 0 to 3 to the selection.
\<close>

theorem shift_toggle_applies_to_range:
  "(shiftKey ev \<and> lastSelectedIndex s = Some anchor \<longrightarrow>
      (\<exists>s'. handleSelectTrip sortTrips s tripId checked index (Some ev) = Inr s' \<and>
            lastSelectedIndex s' = Some anchor \<and>
            set (selectedTrips s') =
              (if checked
               then set (selectedTrips s) \<union>
                    {id' (sortedTrips sortTrips s ! k) | k.
                       min anchor index \<le> k \<and> k \<le> max anchor index \<and> k < length (sortedTrips sortTrips s)}
               else set (selectedTrips s) -
                    {id' (sortedTrips sortTrips s ! k) | k.
                       min anchor index \<le> k \<and> k \<le> max anchor index \<and> k < length (sortedTrips sortTrips s)}))) \<and>
   (\<not> shiftKey ev \<or> lastSelectedIndex s = None \<longrightarrow>
      (\<exists>s'. handleSelectTrip sortTrips s tripId checked index (Some ev) = Inr s' \<and>
            lastSelectedIndex s' = Some index \<and>
            set (selectedTrips s') =
              (if checked then insert tripId (set (selectedTrips s))
               else set (selectedTrips s) - {tripId}))) \<and>
   (4 \<le> length (sortedTrips sortTrips s) \<longrightarrow>
      set (selectedTrips (run sortTrips s
             [ToggleRow 0 True (Some \<lparr>shiftKey = False\<rparr>), ToggleRow 3 True (Some \<lparr>shiftKey = True\<rparr>)]))
        = set (selectedTrips s) \<union> {id' (sortedTrips sortTrips s ! k) | k. k \<le> 3})"
proof (intro conjI impI)
  assume "shiftKey ev \<and> lastSelectedIndex s = Some anchor"
  then show "\<exists>s'. handleSelectTrip sortTrips s tripId checked index (Some ev) = Inr s' \<and>
            lastSelectedIndex s' = Some anchor \<and>
            set (selectedTrips s') =
              (if checked
               then set (selectedTrips s) \<union>
                    {id' (sortedTrips sortTrips s ! k) | k.
                       min anchor index \<le> k \<and> k \<le> max anchor index \<and> k < length (sortedTrips sortTrips s)}
               else set (selectedTrips s) -
                    {id' (sortedTrips sortTrips s ! k) | k.
                       min anchor index \<le> k \<and> k \<le> max anchor index \<and> k < length (sortedTrips sortTrips s)})"
    using handleSelectTrip_range [of ev s anchor sortTrips tripId checked index]
    unfolding slice_ids by blast
next
  assume "\<not> shiftKey ev \<or> lastSelectedIndex s = None"
  then show "\<exists>s'. handleSelectTrip sortTrips s tripId checked index (Some ev) = Inr s' \<and>
            lastSelectedIndex s' = Some index \<and>
            set (selectedTrips s') =
              (if checked then insert tripId (set (selectedTrips s))
               else set (selectedTrips s) - {tripId})"
    by (simp add: handleSelectTrip_plain)
next
  let ?view = "sortedTrips sortTrips s"
  let ?s1 = "s\<lparr>selectedTrips := set_add (selectedTrips s) (id' (?view ! 0)),
               lastSelectedIndex := Some 0\<rparr>"
  assume len: "4 \<le> length ?view"
  then have rows: "0 < length ?view" "3 < length ?view" by linarith+
  have first: "step sortTrips s (ToggleRow 0 True (Some \<lparr>shiftKey = False\<rparr>)) = ?s1"
    using rows(1) by (simp add: handleSelectTrip_plain)
  have view1: "sortedTrips sortTrips ?s1 = ?view" by simp
  obtain s2 where s2: "handleSelectTrip sortTrips ?s1 (id' (?view ! 3)) True 3 (Some \<lparr>shiftKey = True\<rparr>) = Inr s2"
    and sel2: "set (selectedTrips s2) =
         set (selectedTrips ?s1) \<union> id' ` set (slice ?view (min 0 3) (max 0 3 + 1))"
    using handleSelectTrip_range [of "\<lparr>shiftKey = True\<rparr>" ?s1 0 sortTrips "id' (?view ! 3)" True 3]
    by (auto simp: view1)
  have second: "step sortTrips ?s1 (ToggleRow 3 True (Some \<lparr>shiftKey = True\<rparr>)) = s2"
    using rows(2) s2 by (simp add: view1)
  have "id' ` set (slice ?view (min 0 3) (max 0 3 + 1)) = {id' (?view ! k) | k. k \<le> 3}"
    unfolding slice_ids using len by auto
  moreover have "id' (?view ! 0) \<in> {id' (?view ! k) | k. k \<le> 3}" by blast
  ultimately have "set (selectedTrips s2) = set (selectedTrips s) \<union> {id' (?view ! k) | k. k \<le> 3}"
    using sel2 by auto
  then show "set (selectedTrips (run sortTrips s
             [ToggleRow 0 True (Some \<lparr>shiftKey = False\<rparr>), ToggleRow 3 True (Some \<lparr>shiftKey = True\<rparr>)]))
        = set (selectedTrips s) \<union> {id' (?view ! k) | k. k \<le> 3}"
    unfolding run_def using first second by simp
qed

theorem shift_toggle_applies_to_range_witness:
  "shiftKey shift_click \<and> lastSelectedIndex anchored = Some 2 \<and>
   (\<exists>s'. handleSelectTrip keep_order anchored ''a'' False 0 (Some shift_click) = Inr s' \<and>
         lastSelectedIndex s' = Some 2 \<and>
         set (selectedTrips s') =
           set (selectedTrips anchored) -
             {id' (sortedTrips keep_order anchored ! k) | k.
                min 2 0 \<le> k \<and> k \<le> max 2 0 \<and> k < length (sortedTrips keep_order anchored)}) \<and>
   lastSelectedIndex loaded = None \<and>
   (\<exists>s'. handleSelectTrip keep_order loaded ''b'' True 1 (Some shift_click) = Inr s' \<and>
         lastSelectedIndex s' = Some 1 \<and>
         set (selectedTrips s') = insert ''b'' (set (selectedTrips loaded))) \<and>
   4 \<le> length (sortedTrips keep_order loaded) \<and>
   selectedTrips (run keep_order loaded
      [ToggleRow 0 True (Some \<lparr>shiftKey = False\<rparr>), ToggleRow 3 True (Some \<lparr>shiftKey = True\<rparr>)])
     = [''a'', ''b'', ''c'', ''d''] \<and>
   set (selectedTrips (run keep_order loaded
      [ToggleRow 0 True (Some \<lparr>shiftKey = False\<rparr>), ToggleRow 3 True (Some \<lparr>shiftKey = True\<rparr>)]))
     = set (selectedTrips loaded) \<union> {id' (sortedTrips keep_order loaded ! k) | k. k \<le> 3}"
proof -
  have h1: "shiftKey shift_click \<and> lastSelectedIndex anchored = Some 2" by code_simp
  have h2: "\<not> shiftKey shift_click \<or> lastSelectedIndex loaded = None" by code_simp
  have h2': "lastSelectedIndex loaded = None" by code_simp
  have h3: "4 \<le> length (sortedTrips keep_order loaded)" by code_simp
  have run: "selectedTrips (run keep_order loaded
      [ToggleRow 0 True (Some \<lparr>shiftKey = False\<rparr>), ToggleRow 3 True (Some \<lparr>shiftKey = True\<rparr>)])
     = [''a'', ''b'', ''c'', ''d'']" by code_simp
  note range = shift_toggle_applies_to_range
    [where ev = shift_click and s = anchored and anchor = 2 and sortTrips = keep_order
       and tripId = "''a''" and checked = False and index = 0]
  note plain = shift_toggle_applies_to_range
    [where ev = shift_click and s = loaded and anchor = 0 and sortTrips = keep_order
       and tripId = "''b''" and checked = True and index = 1]
  from range h1 have r: "\<exists>s'. handleSelectTrip keep_order anchored ''a'' False 0 (Some shift_click) = Inr s' \<and>
         lastSelectedIndex s' = Some 2 \<and>
         set (selectedTrips s') =
           set (selectedTrips anchored) -
             {id' (sortedTrips keep_order anchored ! k) | k.
                min 2 0 \<le> k \<and> k \<le> max 2 0 \<and> k < length (sortedTrips keep_order anchored)}"
    by simp
  from plain h2 have p: "\<exists>s'. handleSelectTrip keep_order loaded ''b'' True 1 (Some shift_click) = Inr s' \<and>
         lastSelectedIndex s' = Some 1 \<and>
         set (selectedTrips s') = insert ''b'' (set (selectedTrips loaded))"
    by simp
  from plain h3 have e: "set (selectedTrips (run keep_order loaded
      [ToggleRow 0 True (Some \<lparr>shiftKey = False\<rparr>), ToggleRow 3 True (Some \<lparr>shiftKey = True\<rparr>)]))
     = set (selectedTrips loaded) \<union> {id' (sortedTrips keep_order loaded ! k) | k. k \<le> 3}"
    by blast
  from h1 h2' h3 run r p e show ?thesis by blast
qed

text \<open>
  Claim C10. Without an event the toggle fails with a \<open>TypeError\<close> and yields no state.
  With an event it is the plain toggle unless shift is held and an anchor exists, in which
  case it is the range toggle, which keeps the anchor.
\<close>

theorem toggle_without_event_fails:
  "handleSelectTrip sortTrips s tripId checked index None = Inl (TypeError ''shiftKey'') \<and>
   (\<not> (shiftKey ev \<and> lastSelectedIndex s \<noteq> None) \<longrightarrow>
      handleSelectTrip sortTrips s tripId checked index (Some ev) =
        Inr (s\<lparr>selectedTrips := (if checked then set_add (selectedTrips s) tripId
                                  else set_delete (selectedTrips s) tripId),
               lastSelectedIndex := Some index\<rparr>)) \<and>
   (shiftKey ev \<and> lastSelectedIndex s \<noteq> None \<longrightarrow>
      (\<exists>s'. handleSelectTrip sortTrips s tripId checked index (Some ev) = Inr s' \<and>
            lastSelectedIndex s' = lastSelectedIndex s))"
  by (auto simp: handleSelectTrip_def Let_def)

theorem toggle_without_event_fails_witness:
  "handleSelectTrip keep_order loaded ''a'' True 0 None = Inl (TypeError ''shiftKey'') \<and>
   step keep_order loaded (ToggleRow 0 True None) = loaded \<and>
   \<not> shiftKey click \<and>
   handleSelectTrip keep_order anchored ''a'' True 0 (Some click) =
     Inr (anchored\<lparr>selectedTrips := set_add (selectedTrips anchored) ''a'',
                   lastSelectedIndex := Some 0\<rparr>) \<and>
   shiftKey shift_click \<and> lastSelectedIndex anchored \<noteq> None \<and>
   (\<exists>s'. handleSelectTrip keep_order anchored ''a'' True 0 (Some shift_click) = Inr s' \<and>
         lastSelectedIndex s' = lastSelectedIndex anchored)"
proof -
  have h1: "\<not> shiftKey click" by code_simp
  have h2: "shiftKey shift_click" "lastSelectedIndex anchored \<noteq> None" by code_simp+
  have view: "0 < length (sortedTrips keep_order loaded)" "id' (sortedTrips keep_order loaded ! 0) = ''a''"
    by code_simp+
  note none = toggle_without_event_fails [of keep_order loaded "''a''" True 0 click]
  then have st: "step keep_order loaded (ToggleRow 0 True None) = loaded"
    using view by simp
  from none st h1 h2 toggle_without_event_fails [of keep_order anchored "''a''" True 0 click]
    toggle_without_event_fails [of keep_order anchored "''a''" True 0 shift_click]
  show ?thesis by simp
qed

section \<open>Deleting\<close>

text \<open>
  Claim C4. A failed delete leaves the whole state as it was. A successful delete keeps
  exactly the trips whose id is not among the ids sent to the backend, in their order, and
  empties the selection in the same step; the ids sent are the selected ones when the
  selection is not empty.
\<close>

theorem delete_all_or_nothing:
  "fst (handleDelete s (Some e)) = s \<and>
   set (trips (fst (handleDelete s None))) = {t \<in> set (trips s). id' t \<notin> set (tripsToDelete s)} \<and>
   trips (fst (handleDelete s None)) = filter (\<lambda>t. id' t \<notin> set (tripsToDelete s)) (trips s) \<and>
   selectedTrips (fst (handleDelete s None)) = [] \<and>
   (selectedTrips s \<noteq> [] \<longrightarrow> tripsToDelete s = selectedTrips s)"
  by (auto simp: handleDelete_def tripsToDelete_def)

theorem delete_all_or_nothing_witness:
  "selectedTrips two_selected \<noteq> [] \<and>
   tripsToDelete two_selected = [''b'', ''d''] \<and>
   fst (handleDelete two_selected (Some NonError)) = two_selected \<and>
   map id' (trips (fst (handleDelete two_selected None))) = [''a'', ''c''] \<and>
   selectedTrips (fst (handleDelete two_selected None)) = []"
proof -
  have sel: "selectedTrips two_selected \<noteq> []" by code_simp
  have ids: "map id' (filter (\<lambda>t. id' t \<notin> set [''b'', ''d'']) (trips two_selected)) = [''a'', ''c'']"
    by code_simp
  have sel': "selectedTrips two_selected = [''b'', ''d'']" by code_simp
  from delete_all_or_nothing [of two_selected NonError] sel ids sel'
  show ?thesis by simp
qed

section \<open>The selection stays within the collection\<close>

lemma step_preserves_subset:
  assumes sorter: "\<forall>xs config updates. id' ` set (sortTrips xs config updates) \<subseteq> id' ` set xs"
    and inv: "set (selectedTrips s) \<subseteq> id' ` set (trips s)"
  shows "set (selectedTrips (step sortTrips s a)) \<subseteq> id' ` set (trips (step sortTrips s a))"
proof (cases a)
  case (ToggleRow index checked event)
  let ?view = "sortedTrips sortTrips s"
  have "id' ` set ?view \<subseteq> id' ` set (filteredTrips s)"
    using sorter unfolding sortedTrips_def by blast
  then have view: "id' ` set ?view \<subseteq> id' ` set (trips s)"
    using set_filteredTrips [of s] by blast
  show ?thesis
  proof (cases "index < length ?view")
    case False
    with ToggleRow inv show ?thesis by simp
  next
    case in_view: True
    then have "id' (?view ! index) \<in> id' ` set ?view"
      by simp
    with view have row: "id' (?view ! index) \<in> id' ` set (trips s)"
      by blast
    show ?thesis
    proof (cases event)
      case None
      with ToggleRow in_view inv show ?thesis by (simp add: handleSelectTrip_def)
    next
      case (Some ev)
      show ?thesis
      proof (cases "shiftKey ev \<and> lastSelectedIndex s \<noteq> None")
        case True
        then obtain anchor where anchor: "shiftKey ev" "lastSelectedIndex s = Some anchor" by auto
        from handleSelectTrip_range [OF anchor, of sortTrips "id' (?view ! index)" checked index]
        obtain s' where s': "handleSelectTrip sortTrips s (id' (?view ! index)) checked index (Some ev) = Inr s'"
          "trips s' = trips s"
          "set (selectedTrips s') \<subseteq> set (selectedTrips s) \<union>
              id' ` set (slice ?view (min anchor index) (max anchor index + 1))"
          by (auto split: if_splits)
        have "set (slice ?view (min anchor index) (max anchor index + 1)) \<subseteq> set ?view"
          unfolding slice_def by (meson set_take_subset set_drop_subset subset_trans)
        with view have "id' ` set (slice ?view (min anchor index) (max anchor index + 1))
            \<subseteq> id' ` set (trips s)"
          by blast
        with s'(3) inv have "set (selectedTrips s') \<subseteq> id' ` set (trips s)"
          by blast
        with s'(2) have "set (selectedTrips s') \<subseteq> id' ` set (trips s')"
          by simp
        with ToggleRow in_view Some s'(1) show ?thesis by simp
      next
        case False
        then have "\<not> shiftKey ev \<or> lastSelectedIndex s = None" by simp
        from handleSelectTrip_plain [OF this] ToggleRow in_view Some inv row
        show ?thesis by auto
      qed
    qed
  qed
next
  case (SelectAll checked)
  then show ?thesis using set_filteredTrips [of s] by (auto simp: handleSelectAll_def)
next
  case (Delete response)
  then show ?thesis using inv by (cases response) (auto simp: handleDelete_def)
next
  case (Sort f)
  then show ?thesis using inv by (simp add: handleSort_def)
qed (use inv in \<open>auto simp: handleUpdateCreated_def loadTripUpdates_def split: sum.splits\<close>)

lemma run_preserves_subset:
  assumes "\<forall>xs config updates. id' ` set (sortTrips xs config updates) \<subseteq> id' ` set xs"
    and "set (selectedTrips s) \<subseteq> id' ` set (trips s)"
  shows "set (selectedTrips (run sortTrips s actions)) \<subseteq> id' ` set (trips (run sortTrips s actions))"
  using assms(2) unfolding run_def
proof (induction actions arbitrary: s)
  case Nil
  then show ?case by simp
next
  case (Cons a actions)
  from step_preserves_subset [OF assms(1) Cons.prems, of a] show ?case
    by (simp add: Cons.IH)
qed

text \<open>
  Claim C9. Whatever sequence of row toggles (plain or with shift), select-all or
  clear-all, deletes, and changes of search, filters, sort order and updates happens to a
  loaded collection, starting with nothing selected: the selected ids are ids of trips of
  the collection as it is then, provided the sorter returns no trip with an id it was not
  given. In particular, after a delete no id whose trips the delete removed is selected.
\<close>

theorem selection_within_collection:
  assumes "\<forall>xs config updates. id' ` set (sortTrips xs config updates) \<subseteq> id' ` set xs"
    and "selectedTrips s = []"
  shows "set (selectedTrips (run sortTrips s actions))
           \<subseteq> id' ` set (trips (run sortTrips s actions)) \<and>
         (\<forall>x. x \<in> id' ` set (trips (run sortTrips s actions)) \<and>
              x \<notin> id' ` set (trips (step sortTrips (run sortTrips s actions) (Delete response))) \<longrightarrow>
              x \<notin> set (selectedTrips (step sortTrips (run sortTrips s actions) (Delete response))))"
proof -
  have start: "set (selectedTrips s) \<subseteq> id' ` set (trips s)" using assms(2) by simp
  have reach: "set (selectedTrips (run sortTrips s actions))
           \<subseteq> id' ` set (trips (run sortTrips s actions))"
    by (rule run_preserves_subset [OF assms(1) start])
  from step_preserves_subset [OF assms(1) reach, of "Delete response"]
  show ?thesis using reach by blast
qed

theorem selection_within_collection_witness:
  "(\<forall>xs config updates. id' ` set (backwards xs config updates) \<subseteq> id' ` set xs) \<and>
   selectedTrips loaded = [] \<and>
   selectedTrips (run backwards loaded (take 5 session)) = [''c'', ''b'', ''a''] \<and>
   map id' (trips (run backwards loaded (take 6 session))) = [''a'', ''b'', ''c'', ''d''] \<and>
   selectedTrips (run backwards loaded (take 7 session)) = [] \<and>
   map id' (trips (run backwards loaded (take 7 session))) = [''d''] \<and>
   selectedTrips (run backwards loaded session) = [''d''] \<and>
   set (selectedTrips (run backwards loaded session))
     \<subseteq> id' ` set (trips (run backwards loaded session)) \<and>
   set (selectedTrips (run backwards loaded (take 5 session)))
     \<subseteq> id' ` set (trips (run backwards loaded (take 5 session)))"
proof -
  have sorter: "\<forall>xs config updates. id' ` set (backwards xs config updates) \<subseteq> id' ` set xs"
    by (simp add: backwards_def)
  have empty: "selectedTrips loaded = []" by code_simp
  have evals: "selectedTrips (run backwards loaded (take 5 session)) = [''c'', ''b'', ''a'']"
    "map id' (trips (run backwards loaded (take 6 session))) = [''a'', ''b'', ''c'', ''d'']"
    "selectedTrips (run backwards loaded (take 7 session)) = []"
    "map id' (trips (run backwards loaded (take 7 session))) = [''d'']"
    "selectedTrips (run backwards loaded session) = [''d'']"
    by code_simp+
  from selection_within_collection [OF sorter empty, of session]
    selection_within_collection [OF sorter empty, of "take 5 session"]
    sorter empty evals
  show ?thesis by blast
qed

end
